theory Spec2Isabelle
  imports Main
begin

text \<open>
  A shallow embedding of the conversion engine of \<open>src/pages/index.js\<close>. The file
  holds the component twice, an earlier revision first; the model follows the second
  one (from line 823 on), to which all line numbers below refer.
\<close>

section \<open>Strings of the host language\<close>

text \<open>
  A JavaScript string is modelled as a \<^typ>\<open>string\<close>: the list of its code units, for
  text whose code units are all below 256 (ASCII and Latin-1). The built-in string
  operations that \<open>src/pages/index.js\<close> calls are written out here for that range.
\<close>

definition dquote :: char where
  "dquote = CHR 0x22"

definition newline :: char where
  "newline = CHR 0x0A"

definition creturn :: char where
  "creturn = CHR 0x0D"

text \<open>White space as \<open>String.prototype.trim\<close> and the regular expression class \<open>\s\<close>
  see it: TAB, LF, VT, FF, CR, SPACE and NO-BREAK SPACE.\<close>

definition isWhiteSpace :: "char \<Rightarrow> bool" where
  "isWhiteSpace c = ((of_char c :: nat) \<in> {9, 10, 11, 12, 13, 32, 160})"

definition trim :: "string \<Rightarrow> string" where
  "trim s = rev (dropWhile isWhiteSpace (rev (dropWhile isWhiteSpace s)))"

definition lowerChar :: "char \<Rightarrow> char" where
  "lowerChar c =
     (let n = (of_char c :: nat)
      in if (65 \<le> n \<and> n \<le> 90) \<or> (192 \<le> n \<and> n \<le> 222 \<and> n \<noteq> 215)
         then char_of (n + 32) else c)"

definition toLowerCase :: "string \<Rightarrow> string" where
  "toLowerCase s = map lowerChar s"

definition startsWith :: "string \<Rightarrow> string \<Rightarrow> bool" where
  "startsWith s p = (take (length p) s = p)"

text \<open>\<open>String(n)\<close> for a non-negative integer, and \<open>n.toString(36)\<close>.\<close>

definition digitChar :: "nat \<Rightarrow> char" where
  "digitChar d = (if d < 10 then char_of (48 + d) else char_of (87 + d))"

function toStringRadix :: "nat \<Rightarrow> nat \<Rightarrow> string" where
  "toStringRadix b n =
     (if b < 2 \<or> n < b then [digitChar n]
      else toStringRadix b (n div b) @ [digitChar (n mod b)])"
  by pat_completeness auto
termination
  by (relation "measure (\<lambda>(b, n). n)") auto

declare toStringRadix.simps [simp del]

definition String_nat :: "nat \<Rightarrow> string" where
  "String_nat n = toStringRadix 10 n"

text \<open>\<open>xs.join(sep)\<close> on an array of strings.\<close>

fun join :: "string \<Rightarrow> string list \<Rightarrow> string" where
  "join sep [] = []"
| "join sep [x] = x"
| "join sep (x # y # ys) = x @ sep @ join sep (y # ys)"

text \<open>\<open>s.split(c)\<close> for a one-character separator: always at least one piece.\<close>

fun splitChar :: "char \<Rightarrow> string \<Rightarrow> string list" where
  "splitChar c [] = [[]]"
| "splitChar c (x # xs) =
     (if x = c then [] # splitChar c xs
      else (case splitChar c xs of
              [] \<Rightarrow> [[x]]
            | l # ls \<Rightarrow> (x # l) # ls))"

text \<open>\<open>text.replace(/\r\n/g, "\n")\<close>.\<close>

fun normalizeCRLF :: "string \<Rightarrow> string" where
  "normalizeCRLF [] = []"
| "normalizeCRLF [c] = [c]"
| "normalizeCRLF (c # d # rest) =
     (if c = creturn \<and> d = newline then newline # normalizeCRLF rest
      else c # normalizeCRLF (d # rest))"

text \<open>\<open>s.replace(/\s+/g, rep)\<close>: every maximal run of white space becomes \<open>rep\<close>.\<close>

function replaceSpaceRuns :: "string \<Rightarrow> string \<Rightarrow> string" where
  "replaceSpaceRuns rep [] = []"
| "replaceSpaceRuns rep (c # cs) =
     (if isWhiteSpace c then rep @ replaceSpaceRuns rep (dropWhile isWhiteSpace cs)
      else c # replaceSpaceRuns rep cs)"
  by pat_completeness auto
termination
  by (relation "measure (\<lambda>(rep, s). length s)")
     (auto simp: less_Suc_eq_le length_dropWhile_le)

text \<open>\<open>s.split(raw).join(val)\<close> for a non-empty \<open>raw\<close>: every occurrence of \<open>raw\<close>,
  found from the left without overlap, is replaced by \<open>val\<close>. (An empty \<open>raw\<close> never
  reaches this function in the program; the model leaves the string alone then.)\<close>

function splitJoin :: "string \<Rightarrow> string \<Rightarrow> string \<Rightarrow> string" where
  "splitJoin raw val [] = []"
| "splitJoin raw val (c # cs) =
     (if raw \<noteq> [] \<and> take (length raw) (c # cs) = raw
      then val @ splitJoin raw val (drop (length raw) (c # cs))
      else c # splitJoin raw val cs)"
  by pat_completeness auto
termination
  by (relation "measure (\<lambda>(raw, val, s). length s)") auto

section \<open>Line Parser\<close>

text \<open>
  \<open>parseCSVLine\<close> (index.js, lines 888-909). \<open>scanLine\<close> is the \<open>for\<close> loop: its
  arguments are the part of the line from index \<open>i\<close> on, the field \<open>cur\<close> and the flag
  \<open>inQuotes\<close>; its result is what \<open>result\<close> holds after the final \<open>result.push(cur)\<close>,
  from the current field on. The test \<open>line[i + 1] === '"'\<close> is false at the last
  character, where \<open>line[i + 1]\<close> is \<open>undefined\<close>.
\<close>

fun scanLine :: "string \<Rightarrow> string \<Rightarrow> bool \<Rightarrow> string list" where
  "scanLine [] cur inQuotes = [cur]"
| "scanLine [ch] cur inQuotes =
     (if ch = dquote then scanLine [] cur (\<not> inQuotes)
      else if ch = CHR '','' \<and> \<not> inQuotes then cur # scanLine [] [] inQuotes
      else scanLine [] (cur @ [ch]) inQuotes)"
| "scanLine (ch # nx # rest) cur inQuotes =
     (if ch = dquote \<and> nx = dquote then scanLine rest (cur @ [dquote]) inQuotes
      else if ch = dquote then scanLine (nx # rest) cur (\<not> inQuotes)
      else if ch = CHR '','' \<and> \<not> inQuotes then cur # scanLine (nx # rest) [] inQuotes
      else scanLine (nx # rest) (cur @ [ch]) inQuotes)"

definition parseCSVLine :: "string \<Rightarrow> string list" where
  "parseCSVLine line = map trim (scanLine line [] False)"

text \<open>
  The scan as section 4.1 of the specification words it, for comparison with the code:
  a quote followed by a quote is an escaped quote only while inside quotes; every other
  quote toggles the state.
\<close>

fun specScanLine :: "string \<Rightarrow> string \<Rightarrow> bool \<Rightarrow> string list" where
  "specScanLine [] cur inQuotes = [cur]"
| "specScanLine [ch] cur inQuotes =
     (if ch = dquote then specScanLine [] cur (\<not> inQuotes)
      else if ch = CHR '','' \<and> \<not> inQuotes then cur # specScanLine [] [] inQuotes
      else specScanLine [] (cur @ [ch]) inQuotes)"
| "specScanLine (ch # nx # rest) cur inQuotes =
     (if ch = dquote \<and> nx = dquote \<and> inQuotes
      then specScanLine rest (cur @ [dquote]) inQuotes
      else if ch = dquote then specScanLine (nx # rest) cur (\<not> inQuotes)
      else if ch = CHR '','' \<and> \<not> inQuotes then cur # specScanLine (nx # rest) [] inQuotes
      else specScanLine (nx # rest) (cur @ [ch]) inQuotes)"

definition specParseCSVLine :: "string \<Rightarrow> string list" where
  "specParseCSVLine line = map trim (specScanLine line [] False)"

text \<open>Whether the code's scan, started in state \<open>inQuotes\<close>, ever meets a quote directly
  followed by a quote while it is outside a quoted field.\<close>

fun doubledOutside :: "string \<Rightarrow> bool \<Rightarrow> bool" where
  "doubledOutside [] inQuotes = False"
| "doubledOutside [ch] inQuotes = False"
| "doubledOutside (ch # nx # rest) inQuotes =
     (if ch = dquote \<and> nx = dquote then \<not> inQuotes \<or> doubledOutside rest inQuotes
      else if ch = dquote then doubledOutside (nx # rest) (\<not> inQuotes)
      else doubledOutside (nx # rest) inQuotes)"

section \<open>Objects\<close>

text \<open>
  A plain object (\<open>{}\<close>) is modelled by its own enumerable properties: a list of
  key/value pairs in the order in which \<open>Object.keys\<close> and \<open>JSON.stringify\<close> go
  through them, the array-index keys first in ascending order, then the other keys in
  the order they were created. An assignment to the key \<open>__proto__\<close> creates no own
  property (it goes to the setter inherited from \<open>Object.prototype\<close>).
\<close>

definition isDigit :: "char \<Rightarrow> bool" where
  "isDigit c = (48 \<le> (of_char c :: nat) \<and> (of_char c :: nat) \<le> 57)"

definition digitsValue :: "string \<Rightarrow> int" where
  "digitsValue s = foldl (\<lambda>n c. 10 * n + (of_char c - 48)) 0 s"

definition isArrayIndex :: "string \<Rightarrow> bool" where
  "isArrayIndex k =
     (k \<noteq> [] \<and> list_all isDigit k \<and> (if hd k = CHR ''0'' then length k = 1 else True)
      \<and> digitsValue k < 4294967295)"

fun insertKey :: "string \<Rightarrow> 'v \<Rightarrow> (string \<times> 'v) list \<Rightarrow> (string \<times> 'v) list" where
  "insertKey k v [] = [(k, v)]"
| "insertKey k v ((k', v') # ps) =
     (if isArrayIndex k \<and> (if isArrayIndex k' then digitsValue k < digitsValue k' else True)
      then (k, v) # (k', v') # ps
      else (k', v') # insertKey k v ps)"

definition objSet :: "string \<Rightarrow> 'v \<Rightarrow> (string \<times> 'v) list \<Rightarrow> (string \<times> 'v) list" where
  "objSet k v ps =
     (if k = ''__proto__'' then ps
      else if map_of ps k = None then insertKey k v ps
      else map (\<lambda>(k', v'). if k' = k then (k', v) else (k', v')) ps)"

text \<open>The function-valued members that every plain object inherits from
  \<open>Object.prototype\<close>; \<open>__proto__\<close> is its one accessor.\<close>

definition prototypeFunctionKeys :: "string list" where
  "prototypeFunctionKeys =
     [''constructor'', ''hasOwnProperty'', ''isPrototypeOf'', ''propertyIsEnumerable'',
      ''toLocaleString'', ''toString'', ''valueOf'', ''__defineGetter__'',
      ''__defineSetter__'', ''__lookupGetter__'', ''__lookupSetter__'']"

text \<open>
  \<open>String(obj[k] ?? "")\<close> for an object of strings. Where \<open>k\<close> is not an own key the
  read goes to \<open>Object.prototype\<close>: \<open>__proto__\<close> reads the prototype itself, which
  prints as \<open>[object Object]\<close>; an inherited function prints as its source text, which
  the language leaves to the implementation and the model takes as the parameter
  \<open>nativeText\<close>; any other key reads \<open>undefined\<close>.
\<close>

definition readString :: "(string \<Rightarrow> string) \<Rightarrow> (string \<times> string) list \<Rightarrow> string \<Rightarrow> string" where
  "readString nativeText obj k =
     (case map_of obj k of
        Some v \<Rightarrow> v
      | None \<Rightarrow> if k = ''__proto__'' then ''[object Object]''
                else if k \<in> set prototypeFunctionKeys then nativeText k
                else [])"

text \<open>\<open>rowObject.title ?? ""\<close> and \<open>row["content"] ?? ""\<close>: neither key is inherited.\<close>

definition readOwn :: "(string \<times> string) list \<Rightarrow> string \<Rightarrow> string" where
  "readOwn obj k = (case map_of obj k of Some v \<Rightarrow> v | None \<Rightarrow> [])"

section \<open>Session state\<close>

text \<open>A section \<open>{ id, name, removable }\<close>; its field \<open>id\<close> is called \<open>sid\<close> here,
  \<open>id\<close> being the identity function of HOL. A record \<open>{ title, content, data }\<close> of the
  record set keeps the name \<open>jsonEntry\<close> of line 1195.\<close>

record sectionT =
  sid :: string
  name :: string
  removable :: bool

record jsonEntry =
  title :: string
  content :: string
  data :: "(string \<times> (string \<times> string) list) list"

text \<open>
  The state of the component (the \<open>useState\<close> cells of lines 855-874 that the
  conversion engine reads or writes). \<open>fileText\<close> is the text that \<open>file.text()\<close>
  yields; \<open>status\<close> is the pair of \<open>type\<close> and \<open>message\<close>; \<open>modalContent\<close> is the
  pair of \<open>title\<close> and \<open>content\<close>, or \<open>null\<close>. A value of \<open>columnMap\<close> is a section
  id or \<open>undefined\<close> (\<open>None\<close>).
\<close>

record state =
  fileText :: "string option"
  detectedHeaders :: "string list"
  jsonData :: "jsonEntry list"
  status :: "string \<times> string"
  isProcessing :: bool
  modalContent :: "(string \<times> string) option"
  sections :: "sectionT list"
  columnMap :: "string \<rightharpoonup> string option"
  titlePattern :: string

definition mainSection :: sectionT where
  "mainSection = \<lparr>sid = ''main'', name = ''main'', removable = True\<rparr>"

definition initialState :: state where
  "initialState =
     \<lparr>fileText = None, detectedHeaders = [], jsonData = [], status = ([], []),
      isProcessing = False, modalContent = None, sections = [mainSection],
      columnMap = Map.empty, titlePattern = ''{title}''\<rparr>"

section \<open>Section Registry\<close>

text \<open>\<open>addSection\<close> (lines 987-995); \<open>now\<close> is the value of \<open>Date.now()\<close>.\<close>

definition addSection :: "string \<Rightarrow> nat \<Rightarrow> state \<Rightarrow> state" where
  "addSection nm now st =
     (if nm = [] \<or> trim nm = [] then st
      else let normalized = trim nm;
               newId = replaceSpaceRuns ''_'' (toLowerCase normalized) @ ''_'' @ toStringRadix 36 now
           in st\<lparr>sections := sections st @ [\<lparr>sid = newId, name = normalized, removable = True\<rparr>]\<rparr>)"

text \<open>\<open>renameSection\<close> (lines 997-1001).\<close>

definition renameSection :: "string \<Rightarrow> string \<Rightarrow> state \<Rightarrow> state" where
  "renameSection i newName st =
     st\<lparr>sections := map (\<lambda>s. if sid s = i then s\<lparr>name := newName\<rparr> else s) (sections st)\<rparr>"

text \<open>\<open>removeSection\<close> (lines 1003-1020). \<open>fallbackId\<close> is \<open>nextSections?.[0]?.id\<close>:
  \<open>undefined\<close> when no section is left.\<close>

definition removeSection :: "string \<Rightarrow> state \<Rightarrow> state" where
  "removeSection i st =
     (let nextSections = filter (\<lambda>s. sid s \<noteq> i) (sections st);
          fallbackId = (case nextSections of [] \<Rightarrow> None | s # _ \<Rightarrow> Some (sid s));
          nextMap = (\<lambda>col. case columnMap st col of
                              None \<Rightarrow> None
                            | Some v \<Rightarrow> if v = Some i then Some fallbackId else Some v)
      in st\<lparr>sections := nextSections, columnMap := nextMap\<rparr>)"

text \<open>\<open>setColumnAssignment\<close> (lines 1022-1034); an empty \<open>sectionId\<close> is falsy.\<close>

definition setColumnAssignment :: "string \<Rightarrow> string \<Rightarrow> state \<Rightarrow> state" where
  "setColumnAssignment header sectionId st =
     (let key = toLowerCase header
      in if sectionId = [] then st\<lparr>columnMap := (columnMap st)(key := None)\<rparr>
         else if key = ''__proto__'' then st
         else st\<lparr>columnMap := (columnMap st)(key \<mapsto> Some sectionId)\<rparr>)"

text \<open>The operations of the registry as data, and a sequence of them run from a state.\<close>

datatype sectionOp =
    Add string nat
  | Rename string string
  | Remove string

fun applyOp :: "sectionOp \<Rightarrow> state \<Rightarrow> state" where
  "applyOp (Add nm now) st = addSection nm now st"
| "applyOp (Rename i newName) st = renameSection i newName st"
| "applyOp (Remove i) st = removeSection i st"

definition runOps :: "sectionOp list \<Rightarrow> state \<Rightarrow> state" where
  "runOps ops st = foldl (\<lambda>s op. applyOp op s) st ops"

section \<open>Title Pattern Resolver\<close>

text \<open>The local-time fields of a \<open>Date\<close> that \<open>formatTimestampForPattern\<close>
  (lines 912-922) reads; \<open>pad\<close> is its helper \<open>String(n).padStart(2, "0")\<close>.\<close>

record date =
  getFullYear :: nat
  getMonth :: nat
  getDate :: nat
  getHours :: nat
  getMinutes :: nat
  getSeconds :: nat

definition pad :: "nat \<Rightarrow> string" where
  "pad n = (let s = String_nat n in replicate (2 - length s) (CHR ''0'') @ s)"

definition formatTimestampForPattern :: "date \<Rightarrow> string" where
  "formatTimestampForPattern d =
     String_nat (getFullYear d) @ pad (getMonth d + 1) @ pad (getDate d)
     @ pad (getHours d) @ pad (getMinutes d) @ pad (getSeconds d)"

text \<open>
  \<open>resolveToken\<close> (lines 1043-1078). \<open>now\<close> is the \<open>new Date()\<close> that the
  \<open>timestamp\<close> branch reads. A header that \<open>find\<close> returns is used only if it is
  truthy, that is non-empty.
\<close>

definition resolveToken ::
  "(string \<Rightarrow> string) \<Rightarrow> date \<Rightarrow> string \<Rightarrow> (string \<times> string) list \<Rightarrow> string list \<Rightarrow> nat \<Rightarrow> string" where
  "resolveToken nativeText now token rowObject headersArray rowIndex =
     (let t = trim token
      in if t = ''title'' then readOwn rowObject ''title''
         else if t = ''index'' then String_nat rowIndex
         else if t = ''timestamp'' then formatTimestampForPattern now
         else if startsWith (toLowerCase t) ''column:'' then
           (let headerName = trim (drop (length ''column:'') t)
            in if headerName = [] then []
               else (case find (\<lambda>h. toLowerCase h = toLowerCase headerName) headersArray of
                       None \<Rightarrow> []
                     | Some found \<Rightarrow>
                         if found \<noteq> [] then readString nativeText rowObject found else []))
         else if startsWith (toLowerCase t) ''column_'' then
           (let headerName = trim (drop (length ''column_'') t)
            in if headerName = [] then []
               else (let normalizedQuery = replaceSpaceRuns ''_'' (toLowerCase headerName)
                     in case find (\<lambda>h. replaceSpaceRuns ''_'' (toLowerCase h) = normalizedQuery)
                               headersArray of
                          None \<Rightarrow> []
                        | Some match \<Rightarrow>
                            if match \<noteq> [] then readString nativeText rowObject match else []))
         else (case find (\<lambda>h. toLowerCase h = toLowerCase t) headersArray of
                 None \<Rightarrow> []
               | Some match \<Rightarrow>
                   if match \<noteq> [] then readString nativeText rowObject match else []))"

text \<open>
  \<open>pat.match(/\{([^\}]+)\}/g)\<close>: the matches from left to right. A match starts at
  an opening brace, takes every following character up to the next closing brace, at
  least one, and ends with that closing brace; the search goes on behind it. Where an
  opening brace starts no match the search moves one character on.
\<close>

function matchTokens :: "string \<Rightarrow> string list" where
  "matchTokens [] = []"
| "matchTokens (c # cs) =
     (if c = CHR ''{'' \<and> takeWhile (\<lambda>x. x \<noteq> CHR ''}'') cs \<noteq> []
         \<and> dropWhile (\<lambda>x. x \<noteq> CHR ''}'') cs \<noteq> []
      then (c # takeWhile (\<lambda>x. x \<noteq> CHR ''}'') cs @ [CHR ''}''])
           # matchTokens (tl (dropWhile (\<lambda>x. x \<noteq> CHR ''}'') cs))
      else matchTokens cs)"
  by pat_completeness auto
termination
proof (relation "measure length")
  show "wf (measure length)"
    by simp
next
  fix c :: char and cs :: string
  assume "c = CHR ''{'' \<and> takeWhile (\<lambda>x. x \<noteq> CHR ''}'') cs \<noteq> []
            \<and> dropWhile (\<lambda>x. x \<noteq> CHR ''}'') cs \<noteq> []"
  have "length (dropWhile (\<lambda>x. x \<noteq> CHR ''}'') cs) \<le> length cs"
    by (rule length_dropWhile_le)
  then have "length (tl (dropWhile (\<lambda>x. x \<noteq> CHR ''}'') cs)) \<le> length cs"
    by simp
  then show "(tl (dropWhile (\<lambda>x. x \<noteq> CHR ''}'') cs), c # cs) \<in> measure length"
    by simp
next
  fix c :: char and cs :: string
  show "(cs, c # cs) \<in> measure length"
    by simp
qed

text \<open>
  \<open>buildTitleFromPattern\<close> (lines 1081-1101). \<open>clock k\<close> is the \<open>Date\<close> current while
  the \<open>k\<close>-th match (from 0) is resolved; \<open>raw.slice(1, -1)\<close> drops the two braces.
\<close>

definition buildTitleFromPattern ::
  "(string \<Rightarrow> string) \<Rightarrow> (nat \<Rightarrow> date) \<Rightarrow> string \<Rightarrow> (string \<times> string) list \<Rightarrow> string list \<Rightarrow> nat \<Rightarrow> string" where
  "buildTitleFromPattern nativeText clock pattern rowObject headersArray rowIndex =
     (if pattern = [] \<or> trim pattern = [] then readOwn rowObject ''title''
      else let tokens = matchTokens pattern
           in if tokens = [] then pattern
              else foldl (\<lambda>result (k, raw).
                            let token = butlast (tl raw);
                                val = resolveToken nativeText (clock k) token rowObject headersArray rowIndex;
                                safeVal = trim val
                            in splitJoin raw safeVal result)
                         pattern (enumerate 0 tokens))"

section \<open>Record Builder and Convert\<close>

text \<open>The non-blank lines of the file (lines 1114-1115) and the lower-cased header
  list (lines 1127-1130).\<close>

definition csvLines :: "string \<Rightarrow> string list" where
  "csvLines text = filter (\<lambda>l. length (trim l) > 0) (splitChar newline (normalizeCRLF text))"

definition parseHeaders :: "string \<Rightarrow> string list" where
  "parseHeaders line =
     map toLowerCase
       (map (\<lambda>(i, h). if h \<noteq> [] then h else ''column_'' @ String_nat (i + 1))
            (enumerate 0 (parseCSVLine line)))"

text \<open>Lines 1142-1143: the values are padded with empty strings or cut to the width of
  the header list.\<close>

definition fitValues :: "nat \<Rightarrow> string list \<Rightarrow> string list" where
  "fitValues n values = take n (values @ replicate (n - length values) [])"

text \<open>Lines 1146-1149: the row object, one assignment per header in order.\<close>

definition buildRow :: "string list \<Rightarrow> string list \<Rightarrow> (string \<times> string) list" where
  "buildRow headers values = foldl (\<lambda>row (header, v). objSet header v row) [] (zip headers values)"

text \<open>Lines 1152-1155: one empty sub-object per section name.\<close>

definition emptySectionsData :: "sectionT list \<Rightarrow> (string \<times> (string \<times> string) list) list" where
  "emptySectionsData secs = foldl (\<lambda>sectionsData s. objSet (name s) [] sectionsData) [] secs"

text \<open>
  Lines 1165-1167: the section a header goes to, \<open>undefined\<close> (\<open>None\<close>) when there is
  no section at all. (For a header that is no own key of \<open>columnMap\<close> but a member of
  \<open>Object.prototype\<close> the code reads that member, \<open>find\<close> fails and \<open>sections[0]\<close> is
  taken: the section that the default id selects as well.)
\<close>

definition targetSection :: "(string \<rightharpoonup> string option) \<Rightarrow> sectionT list \<Rightarrow> string \<Rightarrow> sectionT option" where
  "targetSection cmap secs headerLower =
     (let defaultSectionId = (case secs of [] \<Rightarrow> ''section_default'' | s # _ \<Rightarrow> sid s);
          targetSectionId = (case cmap headerLower of
                               Some (Some i) \<Rightarrow> i
                             | _ \<Rightarrow> defaultSectionId)
      in case find (\<lambda>s. sid s = targetSectionId) secs of
           Some s \<Rightarrow> Some s
         | None \<Rightarrow> (case secs of [] \<Rightarrow> None | s # _ \<Rightarrow> Some s))"

text \<open>
  Line 1171, \<open>sectionsData[sectionName][headerLower] = v\<close>. Under the name
  \<open>__proto__\<close> the sub-object is the prototype of \<open>sectionsData\<close>, and what is written
  there is no own property of the record's \<open>data\<close>.
\<close>

definition writeCell ::
  "string \<Rightarrow> string \<Rightarrow> string \<Rightarrow> (string \<times> (string \<times> string) list) list \<Rightarrow> (string \<times> (string \<times> string) list) list" where
  "writeCell sectionName headerLower v sectionsData =
     (if sectionName = ''__proto__'' then sectionsData
      else map (\<lambda>(n, sub). if n = sectionName then (n, objSet headerLower v sub) else (n, sub))
               sectionsData)"

datatype error = TypeError

text \<open>Lines 1159-1172, the loop over the headers. Reading \<open>targetSection.name\<close> of
  \<open>undefined\<close> throws a \<open>TypeError\<close>.\<close>

fun placeColumns ::
  "(string \<rightharpoonup> string option) \<Rightarrow> sectionT list \<Rightarrow> (string \<times> string) list \<Rightarrow> string list
     \<Rightarrow> (string \<times> (string \<times> string) list) list \<Rightarrow> error + (string \<times> (string \<times> string) list) list" where
  "placeColumns cmap secs row [] sectionsData = Inr sectionsData"
| "placeColumns cmap secs row (headerLower # rest) sectionsData =
     (if headerLower = ''title'' \<or> headerLower = ''content''
      then placeColumns cmap secs row rest sectionsData
      else (case targetSection cmap secs headerLower of
              None \<Rightarrow> Inl TypeError
            | Some s \<Rightarrow>
                placeColumns cmap secs row rest
                  (writeCell (name s) headerLower (readOwn row headerLower) sectionsData)))"

text \<open>
  Lines 1183-1193. \<open>titleCounts\<close> is a plain object: for a title that names a member
  of \<open>Object.prototype\<close> the lookup finds that member, which is truthy and no number,
  so that the comparison \<open>> 1\<close> is false every time and no suffix is appended.
\<close>

definition uniqueTitle :: "string \<Rightarrow> (string \<rightharpoonup> nat) \<Rightarrow> string \<times> (string \<rightharpoonup> nat)" where
  "uniqueTitle normalized titleCounts =
     (if normalized = ''__proto__'' \<or> normalized \<in> set prototypeFunctionKeys
      then (normalized, titleCounts)
      else let n = (case titleCounts normalized of None \<Rightarrow> 1 | Some c \<Rightarrow> c + 1)
           in (if n > 1 then normalized @ ''-'' @ String_nat (n - 1) else normalized,
               titleCounts(normalized \<mapsto> n)))"

text \<open>The body of the loop over the data lines (lines 1141-1201), for the line with
  index \<open>i\<close>; \<open>clock i k\<close> is the \<open>Date\<close> current while the \<open>k\<close>-th token of that line
  is resolved.\<close>

definition buildEntry ::
  "(string \<Rightarrow> string) \<Rightarrow> (nat \<Rightarrow> nat \<Rightarrow> date) \<Rightarrow> state \<Rightarrow> string list \<Rightarrow> nat \<Rightarrow> string
     \<Rightarrow> (string \<rightharpoonup> nat) \<Rightarrow> error + (jsonEntry \<times> (string \<rightharpoonup> nat))" where
  "buildEntry nativeText clock st headers i line titleCounts =
     (let values = fitValues (length headers) (parseCSVLine line);
          row = buildRow headers values
      in case placeColumns (columnMap st) (sections st) row headers
                (emptySectionsData (sections st)) of
           Inl e \<Rightarrow> Inl e
         | Inr sectionsData \<Rightarrow>
             (let generatedBaseTitle =
                    buildTitleFromPattern nativeText (clock i) (titlePattern st) row headers i;
                  (finalTitle, titleCounts') = uniqueTitle generatedBaseTitle titleCounts
              in Inr (\<lparr>title = finalTitle, content = readOwn row ''content'',
                       data = sectionsData\<rparr>, titleCounts')))"

fun convertRows ::
  "(string \<Rightarrow> string) \<Rightarrow> (nat \<Rightarrow> nat \<Rightarrow> date) \<Rightarrow> state \<Rightarrow> string list \<Rightarrow> nat \<Rightarrow> string list
     \<Rightarrow> (string \<rightharpoonup> nat) \<Rightarrow> error + jsonEntry list" where
  "convertRows nativeText clock st headers i [] titleCounts = Inr []"
| "convertRows nativeText clock st headers i (line # rest) titleCounts =
     (case buildEntry nativeText clock st headers i line titleCounts of
        Inl e \<Rightarrow> Inl e
      | Inr (jsonEntry, titleCounts') \<Rightarrow>
          (case convertRows nativeText clock st headers (i + 1) rest titleCounts' of
             Inl e \<Rightarrow> Inl e
           | Inr transformed \<Rightarrow> Inr (jsonEntry # transformed)))"

text \<open>
  \<open>processCSV\<close> (lines 1103-1230), as the state it leaves behind. An exception
  thrown inside the \<open>try\<close> is caught at line 1224 and leaves the record set as it was.
\<close>

definition convertedMessage :: "nat \<Rightarrow> string" where
  "convertedMessage n = ''Converted '' @ String_nat n @ '' row'' @ (if n \<noteq> 1 then ''s'' else []) @ ''.''"

definition processCSV :: "(string \<Rightarrow> string) \<Rightarrow> (nat \<Rightarrow> nat \<Rightarrow> date) \<Rightarrow> state \<Rightarrow> state" where
  "processCSV nativeText clock st =
     (case fileText st of
        None \<Rightarrow> st\<lparr>status := (''error'', ''Please select a file first.'')\<rparr>
      | Some text \<Rightarrow>
          (let lines = csvLines text
           in if length lines < 1
              then st\<lparr>status := (''error'', ''CSV file is empty or malformed.''),
                      isProcessing := False\<rparr>
              else (let headers = parseHeaders (hd lines)
                    in case convertRows nativeText clock st headers 1 (tl lines) Map.empty of
                         Inl e \<Rightarrow> st\<lparr>status := (''error'', ''Error processing CSV file.''),
                                     isProcessing := False\<rparr>
                       | Inr transformed \<Rightarrow>
                           st\<lparr>detectedHeaders := headers, jsonData := transformed,
                              status := (''success'', convertedMessage (length transformed)),
                              isProcessing := False\<rparr>)))"

section \<open>Exporters\<close>

text \<open>
  \<open>JSON.stringify\<close> on the values the exporters pass to it: strings, objects of
  strings, the sectioned \<open>data\<close> object, and the array of records with the indentation
  of two spaces that \<open>JSON.stringify(jsonData, null, 2)\<close> asks for.
\<close>

definition backslash :: char where
  "backslash = CHR 0x5C"

definition quoteJSONChar :: "char \<Rightarrow> string" where
  "quoteJSONChar c =
     (let n = (of_char c :: nat)
      in if c = dquote then [backslash, dquote]
         else if c = backslash then [backslash, backslash]
         else if n = 8 then [backslash, CHR ''b'']
         else if n = 9 then [backslash, CHR ''t'']
         else if n = 10 then [backslash, CHR ''n'']
         else if n = 12 then [backslash, CHR ''f'']
         else if n = 13 then [backslash, CHR ''r'']
         else if n < 32 then [backslash, CHR ''u'', CHR ''0'', CHR ''0'',
                              digitChar (n div 16), digitChar (n mod 16)]
         else [c])"

definition quoteJSON :: "string \<Rightarrow> string" where
  "quoteJSON s = [dquote] @ concat (map quoteJSONChar s) @ [dquote]"

definition stringifyObject :: "(string \<times> string) list \<Rightarrow> string" where
  "stringifyObject obj =
     ''{'' @ join '','' (map (\<lambda>(k, v). quoteJSON k @ '':'' @ quoteJSON v) obj) @ ''}''"

definition stringifyData :: "(string \<times> (string \<times> string) list) list \<Rightarrow> string" where
  "stringifyData d =
     ''{'' @ join '','' (map (\<lambda>(k, sub). quoteJSON k @ '':'' @ stringifyObject sub) d) @ ''}''"

text \<open>A bracketed block of the indented form: \<open>ind\<close> is the indentation outside the
  block, the items are already printed for the indentation inside.\<close>

definition block :: "char \<Rightarrow> char \<Rightarrow> string \<Rightarrow> string list \<Rightarrow> string" where
  "block l r ind items =
     (if items = [] then [l, r]
      else [l, newline] @ ind @ ''  ''
           @ join ([CHR '','', newline] @ ind @ ''  '') items
           @ [newline] @ ind @ [r])"

definition prettyObject :: "string \<Rightarrow> (string \<times> string) list \<Rightarrow> string" where
  "prettyObject ind obj =
     block (CHR ''{'') (CHR ''}'') ind (map (\<lambda>(k, v). quoteJSON k @ '': '' @ quoteJSON v) obj)"

definition prettyData :: "string \<Rightarrow> (string \<times> (string \<times> string) list) list \<Rightarrow> string" where
  "prettyData ind d =
     block (CHR ''{'') (CHR ''}'') ind
       (map (\<lambda>(k, sub). quoteJSON k @ '': '' @ prettyObject (ind @ ''  '') sub) d)"

definition prettyEntry :: "string \<Rightarrow> jsonEntry \<Rightarrow> string" where
  "prettyEntry ind e =
     block (CHR ''{'') (CHR ''}'') ind
       [quoteJSON ''title'' @ '': '' @ quoteJSON (title e),
        quoteJSON ''content'' @ '': '' @ quoteJSON (content e),
        quoteJSON ''data'' @ '': '' @ prettyData (ind @ ''  '') (data e)]"

definition stringifyPretty :: "jsonEntry list \<Rightarrow> string" where
  "stringifyPretty entries = block (CHR ''['') (CHR '']'') [] (map (prettyEntry ''  '') entries)"

text \<open>\<open>canExport\<close> (lines 1233-1235) and \<open>showExportBlockedModal\<close> (lines 1237-1244).\<close>

definition canExport :: "state \<Rightarrow> bool" where
  "canExport st = (length (jsonData st) > 0 \<and> length (sections st) > 0)"

definition showExportBlockedModal :: "state \<Rightarrow> state" where
  "showExportBlockedModal st =
     st\<lparr>modalContent :=
          Some (''Export Error'',
                ''Cannot export because no sections are defined. Please add at least one section before exporting.''),
        status := (''error'', ''No sections defined.'')\<rparr>"

text \<open>A file handed to the browser for download: the name of the anchor, the type of
  the \<open>Blob\<close> and its text.\<close>

record download =
  downloadName :: string
  blobType :: string
  blobText :: string

text \<open>\<open>new Date().toISOString().replace(/[:.-]/g, "")\<close>, from the ISO string.\<close>

definition fileStamp :: "string \<Rightarrow> string" where
  "fileStamp isoString = filter (\<lambda>c. c \<noteq> CHR '':'' \<and> c \<noteq> CHR ''.'' \<and> c \<noteq> CHR ''-'') isoString"

text \<open>
  \<open>downloadJSON\<close> (lines 1271-1294): the state it leaves and the file it hands over,
  if any. \<open>isoNow\<close> is the value of \<open>new Date().toISOString()\<close> at line 1277.
\<close>

definition downloadJSON :: "string \<Rightarrow> state \<Rightarrow> state \<times> download option" where
  "downloadJSON isoNow st =
     (if \<not> canExport st then (showExportBlockedModal st, None)
      else let timestamp = fileStamp isoNow
           in if length (jsonData st) = 0
              then (st\<lparr>status := (''error'', ''No data to download.'')\<rparr>, None)
              else (st\<lparr>status := (''success'', ''JSON download started.'')\<rparr>,
                    Some \<lparr>downloadName = ''exported-data-'' @ timestamp @ ''.json'',
                          blobType = ''application/json'',
                          blobText = stringifyPretty (jsonData st)\<rparr>))"

text \<open>\<open>csvEscape\<close> (lines 1296-1301); \<open>None\<close> stands for \<open>null\<close> and \<open>undefined\<close>.\<close>

definition csvEscape :: "string option \<Rightarrow> string" where
  "csvEscape v =
     (case v of
        None \<Rightarrow> [dquote, dquote]
      | Some str \<Rightarrow>
          (let escaped = concat (map (\<lambda>c. if c = dquote then [dquote, dquote] else [c]) str)
           in [dquote] @ escaped @ [dquote]))"

text \<open>\<open>slugify\<close> (lines 1247-1253); \<open>\w\<close> is a letter of ASCII, a digit or the
  underscore.\<close>

definition isWordChar :: "char \<Rightarrow> bool" where
  "isWordChar c =
     (let n = (of_char c :: nat)
      in (48 \<le> n \<and> n \<le> 57) \<or> (65 \<le> n \<and> n \<le> 90) \<or> n = 95 \<or> (97 \<le> n \<and> n \<le> 122))"

definition slugify :: "string \<Rightarrow> string" where
  "slugify s =
     replaceSpaceRuns ''-''
       (trim (filter (\<lambda>c. isWordChar c \<or> isWhiteSpace c \<or> c = CHR ''-'') (toLowerCase s)))"

text \<open>\<open>reconstructRowFromItem\<close> (lines 1257-1269).\<close>

definition reconstructRowFromItem :: "jsonEntry \<Rightarrow> (string \<times> string) list" where
  "reconstructRowFromItem item =
     (let flat = foldl (\<lambda>flat (sectionName, sec). foldl (\<lambda>flat (k, v). objSet k v flat) flat sec)
                       [] (data item)
      in objSet ''content'' (content item) (objSet ''title'' (title item) flat))"

definition baseHeaders :: "string list" where
  "baseHeaders =
     [''content'', ''title'', ''route_url'', ''published_at'', ''data'', ''status'', ''sites'',
      ''locale'', ''taxonomy_terms'', ''created_at'']"

text \<open>
  The array \<open>row\<close> of lines 1355-1366 for the record \<open>item\<close> at index \<open>idx\<close>.
  \<open>clock idx k\<close> is the \<open>Date\<close> current while the \<open>k\<close>-th token of the route is
  resolved; \<open>isoAt n\<close> is the value of the \<open>n\<close>-th \<open>new Date().toISOString()\<close> of the
  export, counted from 0 (the one of line 1309).
\<close>

definition exportRow ::
  "(string \<Rightarrow> string) \<Rightarrow> (nat \<Rightarrow> nat \<Rightarrow> date) \<Rightarrow> (nat \<Rightarrow> string) \<Rightarrow> state \<Rightarrow> nat \<Rightarrow> jsonEntry \<Rightarrow> string list" where
  "exportRow nativeText clock isoAt st idx item =
     (let flatRow = reconstructRowFromItem item;
          routeFromPattern =
            buildTitleFromPattern nativeText (clock idx) (titlePattern st) flatRow
              (detectedHeaders st) (idx + 1);
          routeBase = (if routeFromPattern \<noteq> [] \<and> length (trim routeFromPattern) > 0
                       then routeFromPattern else title item);
          routeTitle = slugify routeBase;
          dataJsonString = stringifyData (data item);
          published_at = isoAt (2 * idx + 1);
          created_at = isoAt (2 * idx + 2)
      in [csvEscape (Some (content item)),
          csvEscape (Some (title item)),
          csvEscape (Some (''/'' @ content item @ ''/'' @ routeTitle)),
          csvEscape (Some published_at),
          csvEscape (Some dataJsonString),
          csvEscape (Some ''1''),
          csvEscape (Some []),
          csvEscape (Some ''en''),
          csvEscape (Some []),
          csvEscape (Some created_at)])"

text \<open>The array \<open>csvRows\<close> of lines 1327-1369: the header line, then one line per
  record.\<close>

definition csvRows ::
  "(string \<Rightarrow> string) \<Rightarrow> (nat \<Rightarrow> nat \<Rightarrow> date) \<Rightarrow> (nat \<Rightarrow> string) \<Rightarrow> state \<Rightarrow> string list" where
  "csvRows nativeText clock isoAt st =
     join '','' (map toLowerCase baseHeaders)
     # map (\<lambda>(idx, item). join '','' (exportRow nativeText clock isoAt st idx item))
           (enumerate 0 (jsonData st))"

text \<open>\<open>downloadCSV\<close> (lines 1303-1382).\<close>

definition downloadCSV ::
  "(string \<Rightarrow> string) \<Rightarrow> (nat \<Rightarrow> nat \<Rightarrow> date) \<Rightarrow> (nat \<Rightarrow> string) \<Rightarrow> state \<Rightarrow> state \<times> download option" where
  "downloadCSV nativeText clock isoAt st =
     (if \<not> canExport st then (showExportBlockedModal st, None)
      else let timestamp = fileStamp (isoAt 0)
           in if length (jsonData st) = 0
              then (st\<lparr>status := (''error'', ''No data to download.'')\<rparr>, None)
              else (st\<lparr>status := (''success'', ''CSV download started.'')\<rparr>,
                    Some \<lparr>downloadName = ''exported-data-'' @ timestamp @ ''.csv'',
                          blobType = ''text/csv'',
                          blobText = join [newline] (csvRows nativeText clock isoAt st)\<rparr>))"

section \<open>Notions used in the statements\<close>

text \<open>A sequence of registry operations in which every \<open>Remove\<close> meets, at its turn,
  a section with another id.\<close>

fun leavesOne :: "sectionOp list \<Rightarrow> state \<Rightarrow> bool" where
  "leavesOne [] st = True"
| "leavesOne (op # ops) st =
     ((case op of
         Remove i \<Rightarrow> list_ex (\<lambda>s. sid s \<noteq> i) (sections st)
       | _ \<Rightarrow> True)
      \<and> leavesOne ops (applyOp op st))"

text \<open>A field of the CSV export that is wrapped in double quotes and whose double
  quotes in between come in adjacent pairs only.\<close>

fun quotesDoubled :: "string \<Rightarrow> bool" where
  "quotesDoubled [] = True"
| "quotesDoubled [c] = (c \<noteq> dquote)"
| "quotesDoubled (c # d # rest) =
     (if c = dquote then d = dquote \<and> quotesDoubled rest else quotesDoubled (d # rest))"

definition quotedField :: "string \<Rightarrow> bool" where
  "quotedField f =
     (2 \<le> length f \<and> hd f = dquote \<and> last f = dquote \<and> quotesDoubled (butlast (tl f)))"

text \<open>A title pattern none of whose tokens is \<open>timestamp\<close>.\<close>

definition timestampFree :: "string \<Rightarrow> bool" where
  "timestampFree pattern =
     list_all (\<lambda>raw. trim (butlast (tl raw)) \<noteq> ''timestamp'') (matchTokens pattern)"

text \<open>A string without the white space at its end.\<close>

definition trimEnd :: "string \<Rightarrow> string" where
  "trimEnd s = rev (dropWhile isWhiteSpace (rev s))"

section \<open>Example sessions\<close>

text \<open>A session with the sections \<open>main\<close> and \<open>extra\<close> and one column assigned to
  each, and one with the single section \<open>main\<close> and one column assigned to it.\<close>

definition twoSections :: state where
  "twoSections =
     setColumnAssignment ''Age'' ''extra_7''
       (setColumnAssignment ''name'' ''main'' (addSection ''extra'' 7 initialState))"

definition oneAssignment :: state where
  "oneAssignment = setColumnAssignment ''name'' ''main'' initialState"

text \<open>A platform for the examples: the text of a native function as V8 prints it, a
  clock that stands still, and the file of section 8 of the specification, converted in
  the initial session.\<close>

definition exampleNative :: "string \<Rightarrow> string" where
  "exampleNative k = ''function '' @ k @ ''() { [native code] }''"

definition exampleDate :: date where
  "exampleDate = \<lparr>getFullYear = 2026, getMonth = 10, getDate = 3, getHours = 7,
                  getMinutes = 5, getSeconds = 9\<rparr>"

definition exampleClock :: "nat \<Rightarrow> nat \<Rightarrow> date" where
  "exampleClock i k = exampleDate"

definition exampleIso :: string where
  "exampleIso = ''2026-11-03T07:05:09.123Z''"

definition aliceBob :: string where
  "aliceBob = ''name,age'' @ [newline] @ ''Alice,30'' @ [newline] @ ''Bob,25''"

definition converted :: state where
  "converted = processCSV exampleNative exampleClock (initialState\<lparr>fileText := Some aliceBob\<rparr>)"

text \<open>The example file again with CRLF line ends and blank lines in between, a file
  with a header line only, a file of blank lines, and the session that is about to
  convert a given file under a given title pattern.\<close>

definition aliceBobBlanks :: string where
  "aliceBobBlanks =
     ''name,age'' @ [creturn, newline, creturn, newline] @ ''Alice,30'' @ [newline]
     @ ''   '' @ [newline] @ ''Bob,25'' @ [newline]"

definition headerOnly :: string where
  "headerOnly = [newline] @ ''name,age'' @ [newline, newline]"

definition blankOnly :: string where
  "blankOnly = [newline] @ ''  '' @ [creturn, newline]"

definition scenario :: "string \<Rightarrow> string \<Rightarrow> state" where
  "scenario csv pattern = initialState\<lparr>fileText := Some csv, titlePattern := pattern\<rparr>"

text \<open>A file whose \<open>title\<close> column holds \<open>a\<close>, \<open>a\<close> and \<open>a-1\<close>.\<close>

definition repeatedTitles :: string where
  "repeatedTitles = ''title'' @ [newline] @ ''a'' @ [newline] @ ''a'' @ [newline] @ ''a-1''"

text \<open>A clock that shows another time than \<open>exampleClock\<close>.\<close>

definition laterClock :: "nat \<Rightarrow> nat \<Rightarrow> date" where
  "laterClock i k = exampleDate\<lparr>getSeconds := 10 + i + k\<rparr>"

text \<open>A file whose \<open>title\<close> column holds \<open>constructor\<close> twice.\<close>

definition prototypeTitles :: string where
  "prototypeTitles = ''title'' @ [newline] @ ''constructor'' @ [newline] @ ''constructor''"


section \<open>Line Parser: doubled quotes\<close>

lemma scan_agrees_with_spec:
  "\<not> doubledOutside line q \<Longrightarrow> scanLine line cur q = specScanLine line cur q"
  by (induction line cur q rule: scanLine.induct) auto

lemma parseCSVLine_agrees_with_spec:
  "\<not> doubledOutside line False \<Longrightarrow> parseCSVLine line = specParseCSVLine line"
  by (simp add: parseCSVLine_def specParseCSVLine_def scan_agrees_with_spec)

text \<open>
  Claim C2 fails on the code. The first test of the loop looks at the character and
  its successor only, never at \<open>inQuotes\<close>, so a double quote directly followed by
  another one is taken as an escaped quote outside a quoted field as well. On the line
  \<open>a,"",c\<close>, whose second field is an empty quoted field, the code yields the fields
  \<open>a\<close>, \<open>"\<close> and \<open>c\<close>, where the scan of section 4.1 yields \<open>a\<close>, the empty string
  and \<open>c\<close>; on the line \<open>a""b,c\<close> the code yields \<open>a"b\<close> and \<open>c\<close>, the scan of
  section 4.1 \<open>ab\<close> and \<open>c\<close>. (Code and specification agree on every line in which no
  doubled quote is met outside a quoted field, by the lemma above.)
\<close>

theorem parseCSVLine_doubled_quote_outside:
  "parseCSVLine (''a,'' @ [dquote, dquote] @ '',c'') = [''a'', [dquote], ''c'']
   \<and> specParseCSVLine (''a,'' @ [dquote, dquote] @ '',c'') = [''a'', [], ''c'']
   \<and> parseCSVLine ([CHR ''a'', dquote, dquote] @ ''b,c'') = [[CHR ''a'', dquote, CHR ''b''], ''c'']
   \<and> specParseCSVLine ([CHR ''a'', dquote, dquote] @ ''b,c'') = [''ab'', ''c'']"
  by (simp add: parseCSVLine_def specParseCSVLine_def trim_def isWhiteSpace_def dquote_def)

section \<open>Section Registry: how many sections remain\<close>

lemma sections_removeSection:
  "sections (removeSection i st) = filter (\<lambda>s. sid s \<noteq> i) (sections st)"
  by (simp add: removeSection_def Let_def)

lemma sections_renameSection_empty:
  "(sections (renameSection i newName st) = []) = (sections st = [])"
  by (simp add: renameSection_def)

lemma sections_addSection_nonempty:
  "sections st \<noteq> [] \<Longrightarrow> sections (addSection nm now st) \<noteq> []"
  by (simp add: addSection_def Let_def)

lemma removeSection_nonempty_iff:
  "(sections (removeSection i st) \<noteq> []) = list_ex (\<lambda>s. sid s \<noteq> i) (sections st)"
  by (simp add: sections_removeSection filter_empty_conv list_ex_iff)

lemma leavesOne_nonempty:
  "sections st \<noteq> [] \<Longrightarrow> leavesOne ops st \<Longrightarrow>
     sections (foldl (\<lambda>s op. applyOp op s) st ops) \<noteq> []"
proof (induction ops arbitrary: st)
  case Nil
  then show ?case by simp
next
  case (Cons op ops)
  have "sections (applyOp op st) \<noteq> []"
  proof (cases op)
    case (Add nm now)
    with Cons.prems show ?thesis by (simp add: sections_addSection_nonempty)
  next
    case (Rename i newName)
    with Cons.prems show ?thesis by (simp add: sections_renameSection_empty)
  next
    case (Remove i)
    with Cons.prems show ?thesis by (simp add: removeSection_nonempty_iff)
  qed
  with Cons show ?case by simp
qed

text \<open>
  Claim C1, as amended. \<open>removeSection\<close> has no guard for the last section: it deletes
  every section whose id is the given one, so the list is non-empty afterwards exactly
  when a section with another id was there before. \<open>addSection\<close> and \<open>renameSection\<close>
  never empty a non-empty list. Hence, from the initial state with the single section
  \<open>main\<close>, the list stays non-empty along every sequence of operations in which each
  removal meets a section with another id.
\<close>

theorem sections_nonempty_unless_last_removed:
  "(sections (removeSection i st) \<noteq> []) = list_ex (\<lambda>s. sid s \<noteq> i) (sections st)
   \<and> (sections st \<noteq> [] \<longrightarrow>
        sections (addSection nm now st) \<noteq> [] \<and> sections (renameSection i newName st) \<noteq> [])
   \<and> (leavesOne ops initialState \<longrightarrow> sections (runOps ops initialState) \<noteq> [])"
proof -
  have "sections initialState \<noteq> []"
    by (simp add: initialState_def)
  then show ?thesis
    by (simp add: removeSection_nonempty_iff sections_addSection_nonempty
        sections_renameSection_empty runOps_def leavesOne_nonempty)
qed

text \<open>The theorem at the sequence add \<open>extra\<close>, remove \<open>main\<close>, rename the new
  section: one section is left.\<close>

theorem sections_nonempty_unless_last_removed_witness:
  "leavesOne [Add ''extra'' 7, Remove ''main'', Rename ''extra_7'' ''second''] initialState
   \<and> sections (runOps [Add ''extra'' 7, Remove ''main'', Rename ''extra_7'' ''second'']
                 initialState)
       = [\<lparr>sid = ''extra_7'', name = ''second'', removable = True\<rparr>]
   \<and> sections (runOps [Add ''extra'' 7, Remove ''main'', Rename ''extra_7'' ''second'']
                 initialState) \<noteq> []"
proof -
  have ok: "leavesOne [Add ''extra'' 7, Remove ''main'', Rename ''extra_7'' ''second''] initialState"
    by code_simp
  have val: "sections (runOps [Add ''extra'' 7, Remove ''main'', Rename ''extra_7'' ''second'']
                         initialState)
       = [\<lparr>sid = ''extra_7'', name = ''second'', removable = True\<rparr>]"
    by code_simp
  from ok sections_nonempty_unless_last_removed
          [where ops = "[Add ''extra'' 7, Remove ''main'', Rename ''extra_7'' ''second'']"
             and i = "''main''" and st = initialState and nm = "''extra''" and now = 7
             and newName = "''second''"]
  have "sections (runOps [Add ''extra'' 7, Remove ''main'', Rename ''extra_7'' ''second'']
                    initialState) \<noteq> []"
    by blast
  with ok val show ?thesis
    by blast
qed

text \<open>Claim C1 as stated fails at the one-step sequence that removes \<open>main\<close> from the
  initial state: no section is left.\<close>

theorem sections_empty_counterexample:
  "sections (runOps [Remove ''main''] initialState) = []"
  by (simp add: runOps_def initialState_def mainSection_def removeSection_def)

section \<open>Section Registry: reassignment on removal\<close>

lemma twoSections_sections:
  "sections twoSections = [mainSection, \<lparr>sid = ''extra_7'', name = ''extra'', removable = True\<rparr>]"
  by code_simp

lemma twoSections_columnMap:
  "columnMap twoSections = [''name'' \<mapsto> Some ''main'', ''age'' \<mapsto> Some ''extra_7'']"
proof -
  have "toLowerCase ''Age'' = ''age''" and "toLowerCase ''name'' = ''name''"
    by code_simp+
  then show ?thesis
    by (simp add: twoSections_def setColumnAssignment_def addSection_def Let_def
        initialState_def)
qed

text \<open>
  Claim C4, as amended. After \<open>removeSection i\<close> every entry of the column map that
  pointed at \<open>i\<close> points at the id of the new first section when a section is left, and
  holds \<open>undefined\<close> when the removed section was the last one; every other entry is
  unchanged; and if no entry referred to an absent section id before the removal, none
  does afterwards.
\<close>

theorem removeSection_reassigns:
  "(columnMap st col = Some (Some i) \<longrightarrow>
      columnMap (removeSection i st) col
        = Some (case sections (removeSection i st) of [] \<Rightarrow> None | s # _ \<Rightarrow> Some (sid s)))
   \<and> (columnMap st col \<noteq> Some (Some i) \<longrightarrow>
        columnMap (removeSection i st) col = columnMap st col)
   \<and> ((\<forall>c v. columnMap st c = Some (Some v) \<longrightarrow> v \<in> sid ` set (sections st)) \<longrightarrow>
        (\<forall>c v. columnMap (removeSection i st) c = Some (Some v) \<longrightarrow>
                 v \<in> sid ` set (sections (removeSection i st))))"
proof (intro conjI impI allI)
  assume "columnMap st col = Some (Some i)"
  then show "columnMap (removeSection i st) col
        = Some (case sections (removeSection i st) of [] \<Rightarrow> None | s # _ \<Rightarrow> Some (sid s))"
    by (simp add: removeSection_def Let_def)
next
  assume "columnMap st col \<noteq> Some (Some i)"
  then show "columnMap (removeSection i st) col = columnMap st col"
    by (simp add: removeSection_def Let_def split: option.splits)
next
  fix c v
  assume valid: "\<forall>c v. columnMap st c = Some (Some v) \<longrightarrow> v \<in> sid ` set (sections st)"
    and entry: "columnMap (removeSection i st) c = Some (Some v)"
  show "v \<in> sid ` set (sections (removeSection i st))"
  proof (cases "columnMap st c = Some (Some i)")
    case True
    with entry have "(case filter (\<lambda>s. sid s \<noteq> i) (sections st) of
                        [] \<Rightarrow> None | s # _ \<Rightarrow> Some (sid s)) = Some v"
      by (simp add: removeSection_def Let_def)
    then obtain s rest where "filter (\<lambda>s. sid s \<noteq> i) (sections st) = s # rest" and "sid s = v"
      by (auto split: list.splits)
    then have "s \<in> set (filter (\<lambda>s. sid s \<noteq> i) (sections st))" and "sid s = v"
      by simp_all
    then show ?thesis
      by (auto simp: removeSection_def Let_def)
  next
    case False
    with entry have old: "columnMap st c = Some (Some v)"
      by (simp add: removeSection_def Let_def split: option.splits if_splits)
    with False have "v \<noteq> i"
      by auto
    moreover from valid old have "v \<in> sid ` set (sections st)"
      by blast
    ultimately show ?thesis
      by (auto simp: removeSection_def Let_def)
  qed
qed

text \<open>The theorem at the session with two sections, from which \<open>main\<close> is removed:
  both columns end up in \<open>extra\<close>.\<close>

theorem removeSection_reassigns_witness:
  "columnMap twoSections ''name'' = Some (Some ''main'')
   \<and> columnMap (removeSection ''main'' twoSections) ''name'' = Some (Some ''extra_7'')
   \<and> columnMap twoSections ''age'' = Some (Some ''extra_7'')
   \<and> columnMap (removeSection ''main'' twoSections) ''age'' = Some (Some ''extra_7'')
   \<and> map sid (sections twoSections) = [''main'', ''extra_7'']
   \<and> map sid (sections (removeSection ''main'' twoSections)) = [''extra_7'']
   \<and> ''extra_7'' \<in> sid ` set (sections (removeSection ''main'' twoSections))"
proof -
  have secs: "sections (removeSection ''main'' twoSections)
                = [\<lparr>sid = ''extra_7'', name = ''extra'', removable = True\<rparr>]"
    by (simp add: sections_removeSection twoSections_sections mainSection_def)
  have h1: "columnMap twoSections ''name'' = Some (Some ''main'')"
    by (simp add: twoSections_columnMap)
  have h2: "columnMap twoSections ''age'' = Some (Some ''extra_7'')"
    by (simp add: twoSections_columnMap)
  have h3: "\<forall>c v. columnMap twoSections c = Some (Some v) \<longrightarrow> v \<in> sid ` set (sections twoSections)"
    by (auto simp: twoSections_columnMap twoSections_sections mainSection_def split: if_splits)
  from removeSection_reassigns [where st = twoSections and i = "''main''" and col = "''name''"] h1 secs
  have r1: "columnMap (removeSection ''main'' twoSections) ''name'' = Some (Some ''extra_7'')"
    by simp
  from removeSection_reassigns [where st = twoSections and i = "''main''" and col = "''age''"] h2
  have r2: "columnMap (removeSection ''main'' twoSections) ''age'' = Some (Some ''extra_7'')"
    by simp
  from removeSection_reassigns [where st = twoSections and i = "''main''" and col = "''name''"] h3
  have "\<forall>c v. columnMap (removeSection ''main'' twoSections) c = Some (Some v) \<longrightarrow>
               v \<in> sid ` set (sections (removeSection ''main'' twoSections))"
    by blast
  with r2 have r3: "''extra_7'' \<in> sid ` set (sections (removeSection ''main'' twoSections))"
    by blast
  from h1 h2 r1 r2 r3 secs show ?thesis
    by (simp add: twoSections_sections mainSection_def)
qed

text \<open>Claim C4 as stated fails when the only section is removed: the entry of
  \<open>name\<close> pointed at \<open>main\<close>; afterwards there is no first section and the entry holds
  \<open>undefined\<close>.\<close>

theorem removeSection_last_counterexample:
  "columnMap oneAssignment ''name'' = Some (Some ''main'')
   \<and> sections (removeSection ''main'' oneAssignment) = []
   \<and> columnMap (removeSection ''main'' oneAssignment) ''name'' = Some None"
proof -
  have "toLowerCase ''name'' = ''name''"
    by code_simp
  then show ?thesis
    by (simp add: oneAssignment_def setColumnAssignment_def removeSection_def initialState_def
        mainSection_def Let_def)
qed

section \<open>Exporters: when the JSON export succeeds\<close>

lemma canExport_iff: "canExport st = (jsonData st \<noteq> [] \<and> sections st \<noteq> [])"
  by (simp add: canExport_def)

lemma converted_jsonData:
  "jsonData converted =
     [\<lparr>title = [], content = [], data = [(''main'', [(''name'', ''Alice''), (''age'', ''30'')])]\<rparr>,
      \<lparr>title = ''-1'', content = [], data = [(''main'', [(''name'', ''Bob''), (''age'', ''25'')])]\<rparr>]"
  by code_simp

lemma converted_sections: "sections converted = [mainSection]"
  by code_simp

text \<open>
  Claim C5, as amended. \<open>downloadJSON\<close> hands over a file exactly when the record set
  is non-empty and at least one section is defined. Then the file holds the whole record
  array, printed by \<open>JSON.stringify\<close> with an indentation of two spaces. In every other
  state it produces no file and throws nothing: it leaves an error status and the record
  set as it was.
\<close>

theorem downloadJSON_needs_records_and_sections:
  "(snd (downloadJSON isoNow st) \<noteq> None) = (jsonData st \<noteq> [] \<and> sections st \<noteq> [])
   \<and> (jsonData st \<noteq> [] \<and> sections st \<noteq> [] \<longrightarrow>
        downloadJSON isoNow st
          = (st\<lparr>status := (''success'', ''JSON download started.'')\<rparr>,
             Some \<lparr>downloadName = ''exported-data-'' @ fileStamp isoNow @ ''.json'',
                   blobType = ''application/json'',
                   blobText = stringifyPretty (jsonData st)\<rparr>))
   \<and> (jsonData st = [] \<or> sections st = [] \<longrightarrow>
        snd (downloadJSON isoNow st) = None
        \<and> fst (status (fst (downloadJSON isoNow st))) = ''error''
        \<and> jsonData (fst (downloadJSON isoNow st)) = jsonData st)"
  by (auto simp: downloadJSON_def canExport_iff showExportBlockedModal_def Let_def)

text \<open>The theorem at the converted example: with the section \<open>main\<close> the export
  succeeds, and after the removal of \<open>main\<close> it is blocked.\<close>

theorem downloadJSON_needs_records_and_sections_witness:
  "jsonData converted \<noteq> [] \<and> sections converted \<noteq> []
   \<and> snd (downloadJSON exampleIso converted)
       = Some \<lparr>downloadName = ''exported-data-20261103T070509123Z.json'',
               blobType = ''application/json'',
               blobText = stringifyPretty (jsonData converted)\<rparr>
   \<and> sections (removeSection ''main'' converted) = []
   \<and> snd (downloadJSON exampleIso (removeSection ''main'' converted)) = None
   \<and> fst (status (fst (downloadJSON exampleIso (removeSection ''main'' converted)))) = ''error''"
proof -
  have h: "jsonData converted \<noteq> [] \<and> sections converted \<noteq> []"
    by (simp add: converted_jsonData converted_sections)
  have stamp: "fileStamp exampleIso = ''20261103T070509123Z''"
    by code_simp
  have e: "sections (removeSection ''main'' converted) = []"
    by (simp add: sections_removeSection converted_sections mainSection_def)
  from downloadJSON_needs_records_and_sections [where st = converted and isoNow = exampleIso] h stamp
  have a: "snd (downloadJSON exampleIso converted)
       = Some \<lparr>downloadName = ''exported-data-20261103T070509123Z.json'',
               blobType = ''application/json'',
               blobText = stringifyPretty (jsonData converted)\<rparr>"
    by simp
  from downloadJSON_needs_records_and_sections
         [where st = "removeSection ''main'' converted" and isoNow = exampleIso] e
  have b: "snd (downloadJSON exampleIso (removeSection ''main'' converted)) = None
           \<and> fst (status (fst (downloadJSON exampleIso (removeSection ''main'' converted))))
               = ''error''"
    by blast
  from h a e b show ?thesis
    by blast
qed

text \<open>Claim C5 as stated fails in the session that converts the example and then
  removes the section \<open>main\<close>: the record set is non-empty, and yet no file is produced
  and the error status is set.\<close>

theorem downloadJSON_blocked_counterexample:
  "jsonData (removeSection ''main'' converted) \<noteq> []
   \<and> snd (downloadJSON exampleIso (removeSection ''main'' converted)) = None
   \<and> status (fst (downloadJSON exampleIso (removeSection ''main'' converted)))
       = (''error'', ''No sections defined.'')"
  by code_simp

section \<open>Exporters: quoting in the CSV export\<close>

lemma quotesDoubled_other: "c \<noteq> dquote \<Longrightarrow> quotesDoubled (c # rest) = quotesDoubled rest"
  by (cases rest) simp_all

lemma quotesDoubled_escaped:
  "quotesDoubled (concat (map (\<lambda>c. if c = dquote then [dquote, dquote] else [c]) str))"
  by (induction str) (simp_all add: quotesDoubled_other)

lemma quotedField_csvEscape: "quotedField (csvEscape v)"
  by (cases v) (simp_all add: quotedField_def csvEscape_def Let_def quotesDoubled_escaped)

lemma exportRow_quoted: "list_all quotedField (exportRow nativeText clock isoAt st idx item)"
  by (simp add: exportRow_def Let_def quotedField_csvEscape)

lemma exportRow_length: "length (exportRow nativeText clock isoAt st idx item) = 10"
  by (simp add: exportRow_def Let_def)

lemma headerLine:
  "join '','' (map toLowerCase baseHeaders)
     = ''content,title,route_url,published_at,data,status,sites,locale,taxonomy_terms,created_at''"
  by code_simp

lemma converted_exportRow:
  "exportRow exampleNative exampleClock (\<lambda>n. exampleIso) converted 1 (jsonData converted ! 1)
     = [[dquote, dquote],
        [dquote] @ ''-1'' @ [dquote],
        [dquote] @ ''//-1'' @ [dquote],
        [dquote] @ ''2026-11-03T07:05:09.123Z'' @ [dquote],
        [dquote] @ ''{'' @ [dquote, dquote] @ ''main'' @ [dquote, dquote] @ '':{''
          @ [dquote, dquote] @ ''name'' @ [dquote, dquote] @ '':'' @ [dquote, dquote] @ ''Bob''
          @ [dquote, dquote] @ '','' @ [dquote, dquote] @ ''age'' @ [dquote, dquote] @ '':''
          @ [dquote, dquote] @ ''25'' @ [dquote, dquote] @ ''}}'' @ [dquote],
        [dquote] @ ''1'' @ [dquote],
        [dquote, dquote],
        [dquote] @ ''en'' @ [dquote],
        [dquote, dquote],
        [dquote] @ ''2026-11-03T07:05:09.123Z'' @ [dquote]]"
  by code_simp

text \<open>
  Claim C6, as amended. In the output of the CSV exporter every field of every record
  line is wrapped in double quotes with every double quote inside doubled, whether or
  not quoting is needed: the line of the record at index \<open>idx\<close> is the comma-joined list
  of ten such fields. The header line is the ten fixed names joined by commas, as they
  are, without quotes.
\<close>

theorem csvRows_record_fields_quoted:
  "csvRows nativeText clock isoAt st ! 0
     = ''content,title,route_url,published_at,data,status,sites,locale,taxonomy_terms,created_at''
   \<and> length (csvRows nativeText clock isoAt st) = Suc (length (jsonData st))
   \<and> (idx < length (jsonData st) \<longrightarrow>
        csvRows nativeText clock isoAt st ! Suc idx
          = join '','' (exportRow nativeText clock isoAt st idx (jsonData st ! idx))
        \<and> length (exportRow nativeText clock isoAt st idx (jsonData st ! idx)) = 10
        \<and> list_all quotedField (exportRow nativeText clock isoAt st idx (jsonData st ! idx)))"
  by (simp add: csvRows_def headerLine exportRow_quoted exportRow_length nth_enumerate_eq)

text \<open>The theorem at the second record of the converted example.\<close>

theorem csvRows_record_fields_quoted_witness:
  "1 < length (jsonData converted)
   \<and> csvRows exampleNative exampleClock (\<lambda>n. exampleIso) converted ! Suc 1
       = join '','' (exportRow exampleNative exampleClock (\<lambda>n. exampleIso) converted 1
                      (jsonData converted ! 1))
   \<and> list_all quotedField
        [[dquote, dquote],
         [dquote] @ ''-1'' @ [dquote],
         [dquote] @ ''//-1'' @ [dquote],
         [dquote] @ ''2026-11-03T07:05:09.123Z'' @ [dquote],
         [dquote] @ ''{'' @ [dquote, dquote] @ ''main'' @ [dquote, dquote] @ '':{''
           @ [dquote, dquote] @ ''name'' @ [dquote, dquote] @ '':'' @ [dquote, dquote] @ ''Bob''
           @ [dquote, dquote] @ '','' @ [dquote, dquote] @ ''age'' @ [dquote, dquote] @ '':''
           @ [dquote, dquote] @ ''25'' @ [dquote, dquote] @ ''}}'' @ [dquote],
         [dquote] @ ''1'' @ [dquote],
         [dquote, dquote],
         [dquote] @ ''en'' @ [dquote],
         [dquote, dquote],
         [dquote] @ ''2026-11-03T07:05:09.123Z'' @ [dquote]]"
proof -
  have h: "1 < length (jsonData converted)"
    by (simp add: converted_jsonData)
  from csvRows_record_fields_quoted
         [where nativeText = exampleNative and clock = exampleClock and isoAt = "\<lambda>n. exampleIso"
            and st = converted and idx = 1] h
  have "csvRows exampleNative exampleClock (\<lambda>n. exampleIso) converted ! Suc 1
       = join '','' (exportRow exampleNative exampleClock (\<lambda>n. exampleIso) converted 1
                      (jsonData converted ! 1))"
    and "list_all quotedField
           (exportRow exampleNative exampleClock (\<lambda>n. exampleIso) converted 1
              (jsonData converted ! 1))"
    by blast+
  with h show ?thesis
    by (simp only: converted_exportRow)
qed

text \<open>Claim C6 as stated fails at the header line of any export, here that of the
  converted example: its comma-separated fields are the bare names, and \<open>content\<close>
  neither begins nor ends with a double quote.\<close>

theorem csvRows_header_unquoted_counterexample:
  "splitChar (CHR '','') (hd (csvRows exampleNative exampleClock (\<lambda>n. exampleIso) converted))
     = [''content'', ''title'', ''route_url'', ''published_at'', ''data'', ''status'', ''sites'',
        ''locale'', ''taxonomy_terms'', ''created_at'']
   \<and> hd ''content'' \<noteq> dquote \<and> last ''content'' \<noteq> dquote"
  by code_simp

section \<open>Convert: one record per data line\<close>

lemma convertRows_length:
  "convertRows nativeText clock st headers i lines titleCounts = Inr transformed \<Longrightarrow>
     length transformed = length lines"
proof (induction lines arbitrary: i titleCounts transformed)
  case Nil
  then show ?case by simp
next
  case (Cons line rest)
  then show ?case
    by (auto split: sum.splits prod.splits)
qed

lemma targetSection_defined:
  "secs \<noteq> [] \<Longrightarrow> \<exists>s. targetSection cmap secs headerLower = Some s"
  by (cases secs) (auto simp: targetSection_def Let_def split: option.splits)

lemma placeColumns_defined:
  "secs \<noteq> [] \<Longrightarrow>
     \<exists>sectionsData'. placeColumns cmap secs row headers sectionsData = Inr sectionsData'"
proof (induction headers arbitrary: sectionsData)
  case Nil
  then show ?case by simp
next
  case (Cons headerLower rest)
  from Cons.prems obtain s where "targetSection cmap secs headerLower = Some s"
    using targetSection_defined by blast
  with Cons show ?case
    by simp
qed

lemma buildEntry_defined:
  assumes "sections st \<noteq> []"
  shows "\<exists>r. buildEntry nativeText clock st headers i line titleCounts = Inr r"
proof -
  from assms obtain sd where
    "placeColumns (columnMap st) (sections st)
       (buildRow headers (fitValues (length headers) (parseCSVLine line))) headers
       (emptySectionsData (sections st)) = Inr sd"
    using placeColumns_defined by blast
  then show ?thesis
    by (simp add: buildEntry_def Let_def split: prod.splits)
qed

lemma convertRows_defined:
  assumes "sections st \<noteq> []"
  shows "\<exists>transformed.
           convertRows nativeText clock st headers i lines titleCounts = Inr transformed"
proof (induction lines arbitrary: i titleCounts)
  case Nil
  then show ?case by simp
next
  case (Cons line rest)
  from assms obtain e tc where
    b: "buildEntry nativeText clock st headers i line titleCounts = Inr (e, tc)"
    using buildEntry_defined by (metis surj_pair)
  from Cons obtain es where
    "convertRows nativeText clock st headers (i + 1) rest tc = Inr es"
    by blast
  with b show ?case
    by simp
qed

lemma processCSV_no_file:
  "fileText st = None \<Longrightarrow>
     processCSV nativeText clock st = st\<lparr>status := (''error'', ''Please select a file first.'')\<rparr>"
  by (simp add: processCSV_def)

lemma processCSV_no_lines:
  "fileText st = Some csv \<Longrightarrow> csvLines csv = [] \<Longrightarrow>
     processCSV nativeText clock st
       = st\<lparr>status := (''error'', ''CSV file is empty or malformed.''), isProcessing := False\<rparr>"
  by (simp add: processCSV_def)

lemma processCSV_thrown:
  "fileText st = Some csv \<Longrightarrow> csvLines csv = headerLine # rest \<Longrightarrow>
   convertRows nativeText clock st (parseHeaders headerLine) 1 rest Map.empty = Inl e \<Longrightarrow>
     processCSV nativeText clock st
       = st\<lparr>status := (''error'', ''Error processing CSV file.''), isProcessing := False\<rparr>"
  by (simp add: processCSV_def Let_def)

lemma processCSV_converted:
  "fileText st = Some csv \<Longrightarrow> csvLines csv = headerLine # rest \<Longrightarrow>
   convertRows nativeText clock st (parseHeaders headerLine) 1 rest Map.empty = Inr transformed \<Longrightarrow>
     processCSV nativeText clock st
       = st\<lparr>detectedHeaders := parseHeaders headerLine, jsonData := transformed,
            status := (''success'', convertedMessage (length transformed)),
            isProcessing := False\<rparr>"
  by (simp add: processCSV_def Let_def)

lemma trim_empty_iff: "(trim l = []) = list_all isWhiteSpace l"
proof -
  have "(dropWhile isWhiteSpace (rev (dropWhile isWhiteSpace l)) = [])
          = (dropWhile isWhiteSpace l = [])"
  proof (cases "dropWhile isWhiteSpace l")
    case Nil
    show ?thesis
      unfolding Nil by simp
  next
    case (Cons c cs)
    then have "\<not> isWhiteSpace c"
      by (metis hd_dropWhile list.sel(1) list.distinct(1))
    with Cons show ?thesis
      by (auto simp: dropWhile_eq_Nil_conv)
  qed
  then show ?thesis
    by (simp add: trim_def dropWhile_eq_Nil_conv list_all_iff)
qed

lemma csvLines_nonblank:
  "csvLines csv
     = filter (\<lambda>l. \<not> list_all isWhiteSpace l) (splitChar newline (normalizeCRLF csv))"
  by (simp add: csvLines_def trim_empty_iff)

text \<open>
  Claim C7. The lines that Convert counts, \<open>csvLines\<close>, are the lines of the
  CRLF-normalized file that do not consist of white space only (the empty line
  included), wherever they stand. Whenever Convert succeeds on a file, the number of
  records it produces is the number of these lines minus one, the header line. Convert
  succeeds on every file with a non-blank line as soon as one section is defined.
\<close>

theorem processCSV_record_count:
  assumes f: "fileText st = Some csv"
  shows "csvLines csv
           = filter (\<lambda>l. \<not> list_all isWhiteSpace l) (splitChar newline (normalizeCRLF csv))
         \<and> (fst (status (processCSV nativeText clock st)) = ''success'' \<longrightarrow>
              length (jsonData (processCSV nativeText clock st)) = length (csvLines csv) - 1)
         \<and> (csvLines csv \<noteq> [] \<and> sections st \<noteq> [] \<longrightarrow>
              fst (status (processCSV nativeText clock st)) = ''success'')"
proof -
  have count: "length (jsonData (processCSV nativeText clock st)) = length (csvLines csv) - 1"
    if s: "fst (status (processCSV nativeText clock st)) = ''success''"
  proof (cases "csvLines csv")
    case Nil
    with f s show ?thesis
      by (simp add: processCSV_no_lines)
  next
    case (Cons headerLine rest)
    show ?thesis
    proof (cases "convertRows nativeText clock st (parseHeaders headerLine) 1 rest Map.empty")
      case (Inl e)
      with f s Cons show ?thesis
        by (simp add: processCSV_thrown)
    next
      case (Inr transformed)
      then have "length transformed = length rest"
        by (rule convertRows_length)
      with f Cons Inr show ?thesis
        by (simp add: processCSV_converted)
    qed
  qed
  have accepted: "fst (status (processCSV nativeText clock st)) = ''success''"
    if ok: "csvLines csv \<noteq> [] \<and> sections st \<noteq> []"
  proof -
    from ok obtain headerLine rest where l: "csvLines csv = headerLine # rest"
      by (cases "csvLines csv") auto
    from ok obtain transformed where
      "convertRows nativeText clock st (parseHeaders headerLine) 1 rest Map.empty = Inr transformed"
      using convertRows_defined by blast
    with f l show ?thesis
      by (simp add: processCSV_converted)
  qed
  from csvLines_nonblank count accepted show ?thesis
    by blast
qed

text \<open>The theorem at the example file with CRLF line ends and blank lines in between:
  three non-blank lines, two records.\<close>

theorem processCSV_record_count_witness:
  "fileText (scenario aliceBobBlanks ''{title}'') = Some aliceBobBlanks
   \<and> fst (status (processCSV exampleNative exampleClock (scenario aliceBobBlanks ''{title}'')))
       = ''success''
   \<and> length (csvLines aliceBobBlanks) = 3
   \<and> length (jsonData (processCSV exampleNative exampleClock (scenario aliceBobBlanks ''{title}'')))
       = 2"
proof -
  have f: "fileText (scenario aliceBobBlanks ''{title}'') = Some aliceBobBlanks"
    by (simp add: scenario_def)
  have l: "csvLines aliceBobBlanks = [''name,age'', ''Alice,30'', ''Bob,25'']"
    by code_simp
  have s: "sections (scenario aliceBobBlanks ''{title}'') \<noteq> []"
    by (simp add: scenario_def initialState_def)
  from processCSV_record_count [OF f, where nativeText = exampleNative and clock = exampleClock] l s
  have "fst (status (processCSV exampleNative exampleClock (scenario aliceBobBlanks ''{title}'')))
          = ''success''"
    and "length (jsonData (processCSV exampleNative exampleClock (scenario aliceBobBlanks ''{title}'')))
          = 2"
    by simp_all
  with f l show ?thesis
    by simp
qed

section \<open>Convert: a file with a header line only\<close>

lemma String_nat_0: "String_nat 0 = ''0''"
  by code_simp

text \<open>
  Claim C10. On a file with exactly one non-blank line Convert succeeds: the status is
  the success message "Converted 0 rows." and the record set becomes the empty array.
  The error "CSV file is empty or malformed." is the status exactly when the file has no
  non-blank line.
\<close>

theorem processCSV_header_only:
  assumes f: "fileText st = Some csv"
  shows "(length (csvLines csv) = 1 \<longrightarrow>
            status (processCSV nativeText clock st) = (''success'', ''Converted 0 rows.'')
            \<and> jsonData (processCSV nativeText clock st) = [])
         \<and> ((status (processCSV nativeText clock st)
                = (''error'', ''CSV file is empty or malformed.''))
              = (csvLines csv = []))"
proof -
  have one: "status (processCSV nativeText clock st) = (''success'', ''Converted 0 rows.'')
        \<and> jsonData (processCSV nativeText clock st) = []"
    if "length (csvLines csv) = 1"
  proof -
    from that obtain headerLine where "csvLines csv = [headerLine]"
      by (cases "csvLines csv") auto
    with f show ?thesis
      by (simp add: processCSV_def Let_def convertedMessage_def String_nat_0)
  qed
  have none: "(status (processCSV nativeText clock st)
                = (''error'', ''CSV file is empty or malformed.''))
              = (csvLines csv = [])"
  proof (cases "csvLines csv")
    case Nil
    with f show ?thesis
      by (simp add: processCSV_no_lines)
  next
    case (Cons headerLine rest)
    with f show ?thesis
      by (cases "convertRows nativeText clock st (parseHeaders headerLine) 1 rest Map.empty")
         (simp_all add: processCSV_thrown processCSV_converted)
  qed
  from one none show ?thesis
    by blast
qed

text \<open>The theorem at a file with one header line between blank lines, converted after
  the records of the example, and at a file of blank lines.\<close>

theorem processCSV_header_only_witness:
  "fileText (converted\<lparr>fileText := Some headerOnly\<rparr>) = Some headerOnly
   \<and> length (csvLines headerOnly) = 1
   \<and> jsonData (converted\<lparr>fileText := Some headerOnly\<rparr>) \<noteq> []
   \<and> status (processCSV exampleNative exampleClock (converted\<lparr>fileText := Some headerOnly\<rparr>))
       = (''success'', ''Converted 0 rows.'')
   \<and> jsonData (processCSV exampleNative exampleClock (converted\<lparr>fileText := Some headerOnly\<rparr>))
       = []
   \<and> csvLines blankOnly = []
   \<and> status (processCSV exampleNative exampleClock (converted\<lparr>fileText := Some blankOnly\<rparr>))
       = (''error'', ''CSV file is empty or malformed.'')"
proof -
  have f: "fileText (converted\<lparr>fileText := Some headerOnly\<rparr>) = Some headerOnly"
    and g: "fileText (converted\<lparr>fileText := Some blankOnly\<rparr>) = Some blankOnly"
    by simp_all
  have l: "length (csvLines headerOnly) = 1"
    by code_simp
  have b: "csvLines blankOnly = []"
    by code_simp
  have old: "jsonData (converted\<lparr>fileText := Some headerOnly\<rparr>) \<noteq> []"
    by (simp add: converted_jsonData)
  from processCSV_header_only [OF f, where nativeText = exampleNative and clock = exampleClock] l
  have one: "status (processCSV exampleNative exampleClock (converted\<lparr>fileText := Some headerOnly\<rparr>))
               = (''success'', ''Converted 0 rows.'')
             \<and> jsonData (processCSV exampleNative exampleClock
                            (converted\<lparr>fileText := Some headerOnly\<rparr>)) = []"
    by blast
  from processCSV_header_only [OF g, where nativeText = exampleNative and clock = exampleClock] b
  have none: "status (processCSV exampleNative exampleClock (converted\<lparr>fileText := Some blankOnly\<rparr>))
                = (''error'', ''CSV file is empty or malformed.'')"
    by blast
  from f l old one b none show ?thesis
    by blast
qed

section \<open>Title Pattern Resolver: the scenario of section 8\<close>

lemma trim_index: "trim ''index'' = ''index''"
  by code_simp

lemma trim_trimEnd: "trim s = trimEnd (dropWhile isWhiteSpace s)"
  by (simp add: trim_def trimEnd_def)

lemma trimEnd_snoc: "trimEnd (s @ [c]) = (if isWhiteSpace c then trimEnd s else s @ [c])"
  by (simp add: trimEnd_def)

lemma trimEnd_all_space: "\<forall>c\<in>set s. isWhiteSpace c \<Longrightarrow> trimEnd s = []"
  by (simp add: trimEnd_def)

lemma dropWhile_trimEnd:
  "dropWhile isWhiteSpace (trimEnd s) = trimEnd (dropWhile isWhiteSpace s)"
proof (induction s rule: rev_induct)
  case Nil
  then show ?case by (simp add: trimEnd_def)
next
  case (snoc c s)
  show ?case
  proof (cases "isWhiteSpace c")
    case True
    then show ?thesis
      using snoc by (auto simp: trimEnd_snoc dropWhile_append trimEnd_def dest: set_dropWhileD)
  next
    case False
    then show ?thesis
      by (auto simp: dropWhile_append trimEnd_def)
  qed
qed

lemma trimEnd_idem: "trimEnd (trimEnd s) = trimEnd s"
proof (induction s rule: rev_induct)
  case Nil
  then show ?case by (simp add: trimEnd_def)
next
  case (snoc c s)
  then show ?case by (simp add: trimEnd_snoc)
qed

lemma trim_trimEnd_eq: "trim (trimEnd s) = trim s"
  by (simp add: trim_trimEnd dropWhile_trimEnd trimEnd_idem)

lemma trim_column_prefix: "trim (''column:'' @ h) = ''column:'' @ trimEnd h"
proof -
  have "dropWhile isWhiteSpace (rev h @ '':nmuloc'') = dropWhile isWhiteSpace (rev h) @ '':nmuloc''"
    by (simp add: dropWhile_append isWhiteSpace_def)
  then show ?thesis
    by (simp add: trim_def trimEnd_def isWhiteSpace_def)
qed

lemma lower_column: "toLowerCase ''column:'' = ''column:''"
  by code_simp

lemma resolveToken_column:
  "resolveToken nativeText now (''column:'' @ h) rowObject headersArray rowIndex =
     (if trim h = [] then []
      else case find (\<lambda>x. toLowerCase x = toLowerCase (trim h)) headersArray of
             None \<Rightarrow> []
           | Some found \<Rightarrow> if found \<noteq> [] then readString nativeText rowObject found else [])"
proof -
  let ?t = "''column:'' @ trimEnd h"
  have t: "trim (''column:'' @ h) = ?t"
    by (rule trim_column_prefix)
  have other: "?t \<noteq> ''title''" "?t \<noteq> ''index''" "?t \<noteq> ''timestamp''"
    by simp_all
  have starts: "startsWith (toLowerCase ?t) ''column:''"
    using lower_column by (simp add: startsWith_def toLowerCase_def)
  have rest: "trim (drop (length ''column:'') ?t) = trim h"
    by (simp add: trim_trimEnd_eq)
  show ?thesis
    unfolding resolveToken_def Let_def t
    by (simp only: other starts rest if_True if_False)
qed

text \<open>
  Claim C8. For the file \<open>name,age\<close>, \<open>Alice,30\<close>, \<open>Bob,25\<close> with the default single
  section and the title pattern \<open>{column:name}-{index}\<close>, Convert produces exactly two
  records, with the titles \<open>Alice-1\<close> and \<open>Bob-2\<close>, on every platform and at every time.
  A token \<open>column:h\<close> selects the first header that equals the trimmed \<open>h\<close> up to the
  case of the letters and yields the row's value under that header (nothing when \<open>h\<close> is
  blank or no header matches); the token \<open>index\<close> yields the row index in decimal.
\<close>

theorem processCSV_scenario_titles:
  "length (jsonData (processCSV nativeText clock (scenario aliceBob ''{column:name}-{index}''))) = 2
   \<and> map title (jsonData (processCSV nativeText clock (scenario aliceBob ''{column:name}-{index}'')))
       = [''Alice-1'', ''Bob-2'']
   \<and> resolveToken nativeText now (''column:'' @ h) rowObject headersArray rowIndex
       = (if trim h = [] then []
          else case find (\<lambda>x. toLowerCase x = toLowerCase (trim h)) headersArray of
                 None \<Rightarrow> []
               | Some found \<Rightarrow>
                   if found \<noteq> [] then readString nativeText rowObject found else [])
   \<and> resolveToken nativeText now ''index'' rowObject headersArray rowIndex = String_nat rowIndex"
proof -
  have records:
    "jsonData (processCSV nativeText clock (scenario aliceBob ''{column:name}-{index}''))
       = [\<lparr>title = ''Alice-1'', content = [],
            data = [(''main'', [(''name'', ''Alice''), (''age'', ''30'')])]\<rparr>,
          \<lparr>title = ''Bob-2'', content = [],
            data = [(''main'', [(''name'', ''Bob''), (''age'', ''25'')])]\<rparr>]"
    by code_simp
  have two:
    "length (jsonData (processCSV nativeText clock (scenario aliceBob ''{column:name}-{index}'')))
       = 2"
    by (simp add: records)
  have titles:
    "map title (jsonData (processCSV nativeText clock (scenario aliceBob ''{column:name}-{index}'')))
       = [''Alice-1'', ''Bob-2'']"
    by (simp add: records)
  have idx: "resolveToken nativeText now ''index'' rowObject headersArray rowIndex
               = String_nat rowIndex"
    by (simp add: resolveToken_def trim_index)
  from two titles resolveToken_column idx show ?thesis
    by (intro conjI)
qed

text \<open>The theorem on the example platform: the scenario, the token \<open>column: NAME\<close>
  on the first row, and the token \<open>index\<close> for the third row.\<close>

theorem processCSV_scenario_titles_witness:
  "map title (jsonData (processCSV exampleNative exampleClock
                          (scenario aliceBob ''{column:name}-{index}'')))
     = [''Alice-1'', ''Bob-2'']
   \<and> resolveToken exampleNative exampleDate (''column:'' @ '' NAME '')
         [(''name'', ''Alice''), (''age'', ''30'')] [''name'', ''age''] 1 = ''Alice''
   \<and> resolveToken exampleNative exampleDate ''index''
         [(''name'', ''Alice''), (''age'', ''30'')] [''name'', ''age''] 3 = ''3''"
proof -
  have three: "String_nat 3 = ''3''"
    by code_simp
  have col: "(if trim '' NAME '' = [] then []
              else case find (\<lambda>x. toLowerCase x = toLowerCase (trim '' NAME ''))
                               [''name'', ''age''] of
                     None \<Rightarrow> []
                   | Some found \<Rightarrow>
                       if found \<noteq> []
                       then readString exampleNative [(''name'', ''Alice''), (''age'', ''30'')] found
                       else []) = ''Alice''"
    by code_simp
  from processCSV_scenario_titles
         [where nativeText = exampleNative and clock = exampleClock and now = exampleDate
            and rowObject = "[(''name'', ''Alice''), (''age'', ''30'')]"
            and headersArray = "[''name'', ''age'']" and h = "'' NAME ''" and rowIndex = 3]
       three col
  have "map title (jsonData (processCSV exampleNative exampleClock
                          (scenario aliceBob ''{column:name}-{index}'')))
          = [''Alice-1'', ''Bob-2'']"
    and "resolveToken exampleNative exampleDate (''column:'' @ '' NAME '')
           [(''name'', ''Alice''), (''age'', ''30'')] [''name'', ''age''] 3 = ''Alice''"
    and "resolveToken exampleNative exampleDate ''index''
           [(''name'', ''Alice''), (''age'', ''30'')] [''name'', ''age''] 3 = ''3''"
    by simp_all
  moreover
  from processCSV_scenario_titles
         [where nativeText = exampleNative and clock = exampleClock and now = exampleDate
            and rowObject = "[(''name'', ''Alice''), (''age'', ''30'')]"
            and headersArray = "[''name'', ''age'']" and h = "'' NAME ''" and rowIndex = 1]
       col
  have "resolveToken exampleNative exampleDate (''column:'' @ '' NAME '')
           [(''name'', ''Alice''), (''age'', ''30'')] [''name'', ''age''] 1 = ''Alice''"
    by simp
  ultimately show ?thesis
    by simp
qed

section \<open>Title uniqueness\<close>

text \<open>
  Claim C3 fails on the code. The file whose \<open>title\<close> column holds \<open>a\<close>, \<open>a\<close> and
  \<open>a-1\<close>, converted with the default pattern \<open>{title}\<close>, yields the titles \<open>a\<close>, \<open>a-1\<close>
  and \<open>a-1\<close>: the suffixed second occurrence of \<open>a\<close> meets the first occurrence of
  \<open>a-1\<close>, which is counted under its own key and kept as it is. The file whose
  \<open>title\<close> column holds \<open>constructor\<close> twice yields that title twice, since the
  counter object inherits a member of that name.
\<close>

theorem processCSV_duplicate_titles:
  "map title (jsonData (processCSV nativeText clock (scenario repeatedTitles ''{title}'')))
     = [''a'', ''a-1'', ''a-1'']
   \<and> map title (jsonData (processCSV nativeText clock (scenario prototypeTitles ''{title}'')))
     = [''constructor'', ''constructor'']"
proof -
  have "map title (jsonData (processCSV nativeText clock (scenario repeatedTitles ''{title}'')))
          = [''a'', ''a-1'', ''a-1'']"
    by code_simp
  moreover
  have "map title (jsonData (processCSV nativeText clock (scenario prototypeTitles ''{title}'')))
          = [''constructor'', ''constructor'']"
    by code_simp
  ultimately show ?thesis
    by simp
qed

section \<open>Convert: idempotence\<close>

lemma resolveToken_clock:
  "trim token \<noteq> ''timestamp'' \<Longrightarrow>
     resolveToken nativeText now' token rowObject headersArray rowIndex
       = resolveToken nativeText now token rowObject headersArray rowIndex"
  by (simp add: resolveToken_def Let_def)

lemma enumerate_snd_in_set: "(k, x) \<in> set (enumerate n xs) \<Longrightarrow> x \<in> set xs"
  by (metis in_set_enumerate_eq fst_conv snd_conv nth_mem less_diff_conv2)

lemma buildTitleFromPattern_clock:
  assumes "timestampFree pattern"
  shows "buildTitleFromPattern nativeText clock' pattern rowObject headersArray rowIndex
           = buildTitleFromPattern nativeText clock pattern rowObject headersArray rowIndex"
proof -
  have "foldl (\<lambda>result (k, raw).
                  let token = butlast (tl raw);
                      val = resolveToken nativeText (clock' k) token rowObject headersArray rowIndex;
                      safeVal = trim val
                  in splitJoin raw safeVal result) pattern (enumerate 0 (matchTokens pattern))
        = foldl (\<lambda>result (k, raw).
                  let token = butlast (tl raw);
                      val = resolveToken nativeText (clock k) token rowObject headersArray rowIndex;
                      safeVal = trim val
                  in splitJoin raw safeVal result) pattern (enumerate 0 (matchTokens pattern))"
  proof (rule foldl_cong)
    fix result :: string and x :: "nat \<times> string"
    assume "x \<in> set (enumerate 0 (matchTokens pattern))"
    moreover obtain k raw where x: "x = (k, raw)"
      by (cases x)
    ultimately have "raw \<in> set (matchTokens pattern)"
      by (auto dest: enumerate_snd_in_set)
    with assms have "trim (butlast (tl raw)) \<noteq> ''timestamp''"
      by (simp add: timestampFree_def list_all_iff)
    then show "(case x of (k, raw) \<Rightarrow>
                  let token = butlast (tl raw);
                      val = resolveToken nativeText (clock' k) token rowObject headersArray rowIndex;
                      safeVal = trim val
                  in splitJoin raw safeVal result)
             = (case x of (k, raw) \<Rightarrow>
                  let token = butlast (tl raw);
                      val = resolveToken nativeText (clock k) token rowObject headersArray rowIndex;
                      safeVal = trim val
                  in splitJoin raw safeVal result)"
      by (simp add: x Let_def resolveToken_clock [where now' = "clock' k" and now = "clock k"])
  qed simp_all
  then show ?thesis
    by (simp add: buildTitleFromPattern_def Let_def)
qed

lemma buildEntry_clock:
  "timestampFree (titlePattern st) \<Longrightarrow>
     buildEntry nativeText clock' st headers i line titleCounts
       = buildEntry nativeText clock st headers i line titleCounts"
  by (simp add: buildEntry_def Let_def
      buildTitleFromPattern_clock [where clock' = "clock' i" and clock = "clock i"]
      cong: sum.case_cong)

lemma convertRows_clock:
  "timestampFree (titlePattern st) \<Longrightarrow>
     convertRows nativeText clock' st headers i lines titleCounts
       = convertRows nativeText clock st headers i lines titleCounts"
  by (induction lines arbitrary: i titleCounts)
     (simp_all add: buildEntry_clock [where clock' = clock' and clock = clock]
        cong: sum.case_cong prod.case_cong)

lemma buildEntry_state:
  "sections st' = sections st \<Longrightarrow> columnMap st' = columnMap st \<Longrightarrow>
   titlePattern st' = titlePattern st \<Longrightarrow>
     buildEntry nativeText clock st' headers i line titleCounts
       = buildEntry nativeText clock st headers i line titleCounts"
  by (simp add: buildEntry_def cong: sum.case_cong)

lemma convertRows_state:
  "sections st' = sections st \<Longrightarrow> columnMap st' = columnMap st \<Longrightarrow>
   titlePattern st' = titlePattern st \<Longrightarrow>
     convertRows nativeText clock st' headers i lines titleCounts
       = convertRows nativeText clock st headers i lines titleCounts"
  by (induction lines arbitrary: i titleCounts)
     (simp_all add: buildEntry_state [where st' = st' and st = st]
        cong: sum.case_cong prod.case_cong)

lemma convertRows_same:
  assumes "sections st' = sections st" and "columnMap st' = columnMap st"
    and "titlePattern st' = titlePattern st"
    and "timestampFree (titlePattern st) \<or> clock' = clock"
  shows "convertRows nativeText clock' st' headers i lines titleCounts
           = convertRows nativeText clock st headers i lines titleCounts"
proof -
  have "convertRows nativeText clock' st' headers i lines titleCounts
          = convertRows nativeText clock' st headers i lines titleCounts"
    using assms(1-3) by (rule convertRows_state)
  also have "\<dots> = convertRows nativeText clock st headers i lines titleCounts"
    using assms(4) convertRows_clock by blast
  finally show ?thesis .
qed

lemma processCSV_same_inputs:
  assumes ft: "fileText st' = fileText st" and same: "sections st' = sections st"
    "columnMap st' = columnMap st" "titlePattern st' = titlePattern st"
    "timestampFree (titlePattern st) \<or> clock' = clock"
  shows "status (processCSV nativeText clock' st') = status (processCSV nativeText clock st)
         \<and> (fst (status (processCSV nativeText clock st)) = ''success'' \<longrightarrow>
              jsonData (processCSV nativeText clock' st') = jsonData (processCSV nativeText clock st))"
proof (cases "fileText st")
  case None
  with ft show ?thesis
    by (simp add: processCSV_no_file)
next
  case (Some csv)
  show ?thesis
  proof (cases "csvLines csv")
    case Nil
    with Some ft show ?thesis
      by (simp add: processCSV_no_lines)
  next
    case (Cons headerLine rest)
    have conv: "convertRows nativeText clock' st' (parseHeaders headerLine) 1 rest Map.empty
                  = convertRows nativeText clock st (parseHeaders headerLine) 1 rest Map.empty"
      using same by (rule convertRows_same)
    show ?thesis
    proof (cases "convertRows nativeText clock st (parseHeaders headerLine) 1 rest Map.empty")
      case (Inl e)
      with Some Cons ft conv show ?thesis
        by (simp add: processCSV_thrown)
    next
      case (Inr transformed)
      with Some Cons ft conv show ?thesis
        by (simp add: processCSV_converted)
    qed
  qed
qed

lemma processCSV_twice:
  assumes "timestampFree (titlePattern st) \<or> clock' = clock"
  shows "processCSV nativeText clock' (processCSV nativeText clock st)
           = processCSV nativeText clock st"
proof (cases "fileText st")
  case None
  then show ?thesis
    by (simp add: processCSV_no_file)
next
  case (Some csv)
  show ?thesis
  proof (cases "csvLines csv")
    case Nil
    with Some show ?thesis
      by (simp add: processCSV_no_lines)
  next
    case (Cons headerLine rest)
    show ?thesis
    proof (cases "convertRows nativeText clock st (parseHeaders headerLine) 1 rest Map.empty")
      case (Inl e)
      let ?st' = "st\<lparr>status := (''error'', ''Error processing CSV file.''), isProcessing := False\<rparr>"
      have first: "processCSV nativeText clock st = ?st'"
        using Some Cons Inl by (rule processCSV_thrown)
      have "convertRows nativeText clock' ?st' (parseHeaders headerLine) 1 rest Map.empty
              = convertRows nativeText clock st (parseHeaders headerLine) 1 rest Map.empty"
        using assms by (intro convertRows_same) simp_all
      with Inl Some Cons have "processCSV nativeText clock' ?st' = ?st'"
        by (simp add: processCSV_thrown)
      with first show ?thesis
        by simp
    next
      case (Inr transformed)
      let ?st' = "st\<lparr>detectedHeaders := parseHeaders headerLine, jsonData := transformed,
            status := (''success'', convertedMessage (length transformed)),
            isProcessing := False\<rparr>"
      have first: "processCSV nativeText clock st = ?st'"
        using Some Cons Inr by (rule processCSV_converted)
      have "convertRows nativeText clock' ?st' (parseHeaders headerLine) 1 rest Map.empty
              = convertRows nativeText clock st (parseHeaders headerLine) 1 rest Map.empty"
        using assms by (intro convertRows_same) simp_all
      with Inr Some Cons have "processCSV nativeText clock' ?st' = ?st'"
        by (simp add: processCSV_converted)
      with first show ?thesis
        by simp
    qed
  qed
qed

text \<open>
  Claim C9. If the title pattern has no \<open>timestamp\<close> token, or the clock is frozen,
  then running \<open>processCSV\<close> a second time on the state that the first run left gives
  that state again, record set included. More generally the outcome is a function of
  the file text, the sections, the column map and the pattern: two sessions that agree
  on these four end with the same status and, where Convert succeeds, with the same
  record set, whatever else differs between them.
\<close>

theorem processCSV_idempotent:
  assumes "timestampFree (titlePattern st) \<or> clock' = clock"
  shows "processCSV nativeText clock' (processCSV nativeText clock st)
           = processCSV nativeText clock st
         \<and> (fileText st' = fileText st \<and> sections st' = sections st
              \<and> columnMap st' = columnMap st \<and> titlePattern st' = titlePattern st \<longrightarrow>
              status (processCSV nativeText clock' st') = status (processCSV nativeText clock st)
              \<and> (fst (status (processCSV nativeText clock st)) = ''success'' \<longrightarrow>
                   jsonData (processCSV nativeText clock' st')
                     = jsonData (processCSV nativeText clock st)))"
  using assms processCSV_twice processCSV_same_inputs by blast

text \<open>The theorem at the scenario of section 8, run again under a clock that shows
  another time, and run in a session that already holds records.\<close>

theorem processCSV_idempotent_witness:
  "timestampFree ''{column:name}-{index}''
   \<and> processCSV exampleNative laterClock
        (processCSV exampleNative exampleClock (scenario aliceBob ''{column:name}-{index}''))
       = processCSV exampleNative exampleClock (scenario aliceBob ''{column:name}-{index}'')
   \<and> jsonData (processCSV exampleNative laterClock
                  (converted\<lparr>titlePattern := ''{column:name}-{index}''\<rparr>))
       = jsonData (processCSV exampleNative exampleClock
                     (scenario aliceBob ''{column:name}-{index}''))"
proof -
  have free: "timestampFree ''{column:name}-{index}''"
    by code_simp
  then have h: "timestampFree (titlePattern (scenario aliceBob ''{column:name}-{index}''))
                \<or> laterClock = exampleClock"
    by (simp add: scenario_def)
  have ok: "fst (status (processCSV exampleNative exampleClock
                           (scenario aliceBob ''{column:name}-{index}''))) = ''success''"
    by code_simp
  have same: "fileText (converted\<lparr>titlePattern := ''{column:name}-{index}''\<rparr>)
                = fileText (scenario aliceBob ''{column:name}-{index}'')
              \<and> sections (converted\<lparr>titlePattern := ''{column:name}-{index}''\<rparr>)
                = sections (scenario aliceBob ''{column:name}-{index}'')
              \<and> columnMap (converted\<lparr>titlePattern := ''{column:name}-{index}''\<rparr>)
                = columnMap (scenario aliceBob ''{column:name}-{index}'')
              \<and> titlePattern (converted\<lparr>titlePattern := ''{column:name}-{index}''\<rparr>)
                = titlePattern (scenario aliceBob ''{column:name}-{index}'')"
    by (simp add: converted_def scenario_def processCSV_def Let_def initialState_def
        split: option.splits sum.splits)
  from processCSV_idempotent
         [OF h, where nativeText = exampleNative
            and st' = "converted\<lparr>titlePattern := ''{column:name}-{index}''\<rparr>"]
       ok same free
  show ?thesis
    by blast
qed

end
